theory Spec2Isabelle
  imports Complex_Main "HOL-Library.Sublist"
begin

section \<open>Python values, strings and the library boundary\<close>

text \<open>
  The scraper works on dynamically typed dictionaries. A dictionary is an association
  list from keys to values (insertion order kept, the first binding of a key is the one
  \<open>d.get(k)\<close> reads); a value is one of the Python objects the code can meet. A Python
  float is represented by the real number it denotes (finite values only); characters
  are ASCII.
\<close>

datatype error = ValueError | TypeError | OverflowError

text \<open>
  \<open>datetime\<close>: the wall-clock reading in seconds and, for a timezone-aware value, the
  offset from UTC in seconds. A naive value has no offset.
\<close>

datatype datetime = DateTime (wall_clock: int) (utc_offset: "int option")

datatype pyval =
    PNone
  | PBool bool
  | PInt int
  | PFloat real
  | PStr string
  | PDateTime datetime
  | PList "pyval list"
  | PDict "(string \<times> pyval) list"

type_synonym pydict = "(string \<times> pyval) list"

text \<open>\<open>d.get(k)\<close>: the value bound to \<open>k\<close>, \<open>None\<close> when the key is missing.\<close>

definition dict_get :: "pydict \<Rightarrow> string \<Rightarrow> pyval" where
  "dict_get d k = (case map_of d k of None \<Rightarrow> PNone | Some v \<Rightarrow> v)"

text \<open>
  \<open>d.update(e)\<close>: every binding of \<open>e\<close>, in order, replaces the value of its key
  where \<open>d\<close> has the key and is appended otherwise.
\<close>

fun dict_set :: "string \<Rightarrow> pyval \<Rightarrow> pydict \<Rightarrow> pydict" where
  "dict_set k v [] = [(k, v)]"
| "dict_set k v (p # ps) = (if fst p = k then (k, v) # ps else p # dict_set k v ps)"

fun dict_update :: "pydict \<Rightarrow> pydict \<Rightarrow> pydict" where
  "dict_update d [] = d"
| "dict_update d ((k, v) # e) = dict_update (dict_set k v d) e"

text \<open>Truth value of an object, as \<open>if x:\<close> and \<open>not x\<close> take it.\<close>

fun truthy :: "pyval \<Rightarrow> bool" where
  "truthy PNone = False"
| "truthy (PBool b) = b"
| "truthy (PInt n) = (n \<noteq> 0)"
| "truthy (PFloat x) = (x \<noteq> 0)"
| "truthy (PStr s) = (s \<noteq> [])"
| "truthy (PDateTime d) = True"
| "truthy (PList xs) = (xs \<noteq> [])"
| "truthy (PDict d) = (d \<noteq> [])"

text \<open>
  \<open>isinstance(x, int)\<close> holds for \<open>int\<close> and for its subclass \<open>bool\<close>; \<open>as_int\<close> gives the
  integer such an object compares as, and \<open>None\<close> for every other object.
\<close>

fun as_int :: "pyval \<Rightarrow> int option" where
  "as_int (PInt n) = Some n"
| "as_int (PBool b) = Some (if b then 1 else 0)"
| "as_int v = None"

text \<open>
  Ordering two \<open>datetime\<close> objects: two naive values compare by wall clock, two aware
  values by their instant in UTC, and a naive value against an aware one raises
  \<open>TypeError\<close>.
\<close>

fun datetime_ge :: "datetime \<Rightarrow> datetime \<Rightarrow> error + bool" where
  "datetime_ge (DateTime a None) (DateTime b None) = Inr (b \<le> a)"
| "datetime_ge (DateTime a (Some oa)) (DateTime b (Some ob)) = Inr (b - ob \<le> a - oa)"
| "datetime_ge (DateTime a None) (DateTime b (Some ob)) = Inl TypeError"
| "datetime_ge (DateTime a (Some oa)) (DateTime b None) = Inl TypeError"

subsection \<open>Characters and strings\<close>

definition isspace :: "char \<Rightarrow> bool" where
  "isspace c = (c \<in> set [CHR '' '', CHR 0x09, CHR 0x0A, CHR 0x0B, CHR 0x0C, CHR 0x0D,
                          CHR 0x1C, CHR 0x1D, CHR 0x1E, CHR 0x1F])"

definition isdigit :: "char \<Rightarrow> bool" where
  "isdigit c = (c \<in> set ''0123456789'')"

definition lower_char :: "char \<Rightarrow> char" where
  "lower_char c =
     (case map_of (zip ''ABCDEFGHIJKLMNOPQRSTUVWXYZ'' ''abcdefghijklmnopqrstuvwxyz'') c of
        None \<Rightarrow> c | Some l \<Rightarrow> l)"

definition lower :: "string \<Rightarrow> string" where
  "lower s = map lower_char s"

definition isalpha :: "char \<Rightarrow> bool" where
  "isalpha c = (lower_char c \<in> set ''abcdefghijklmnopqrstuvwxyz'')"

text \<open>A word character of a regular expression (\<open>\w\<close>): a letter, a digit or \<open>_\<close>.\<close>

definition word_char :: "char \<Rightarrow> bool" where
  "word_char c = (isalpha c \<or> isdigit c \<or> c = CHR ''_'')"

definition strip :: "string \<Rightarrow> string" where
  "strip s = rev (dropWhile isspace (rev (dropWhile isspace s)))"

fun starts_with :: "string \<Rightarrow> string \<Rightarrow> bool" where
  "starts_with [] s = True"
| "starts_with (p # ps) [] = False"
| "starts_with (p # ps) (c # cs) = (p = c \<and> starts_with ps cs)"

text \<open>\<open>sub in s\<close>.\<close>

fun contains :: "string \<Rightarrow> string \<Rightarrow> bool" where
  "contains sub [] = (sub = [])"
| "contains sub (c # cs) = (starts_with sub (c # cs) \<or> contains sub cs)"

text \<open>\<open>sep.join(parts)\<close>.\<close>

fun join :: "string \<Rightarrow> string list \<Rightarrow> string" where
  "join sep [] = []"
| "join sep [p] = p"
| "join sep (p # q # ps) = p @ sep @ join sep (q # ps)"

text \<open>\<open>len(s.split())\<close>: the number of maximal runs of non-space characters.\<close>

fun count_words :: "bool \<Rightarrow> string \<Rightarrow> nat" where
  "count_words inside [] = 0"
| "count_words inside (c # cs) =
     (if isspace c then count_words False cs
      else (if inside then 0 else 1) + count_words True cs)"

definition digit_val :: "char \<Rightarrow> nat" where
  "digit_val c =
     (case map_of (zip ''0123456789'' [0, 1, 2, 3, 4, 5, 6, 7, 8, 9]) c of
        None \<Rightarrow> 0 | Some d \<Rightarrow> d)"

definition nat_of_digits :: "string \<Rightarrow> nat" where
  "nat_of_digits ds = foldl (\<lambda>a c. 10 * a + digit_val c) 0 ds"

definition digit_char :: "nat \<Rightarrow> char" where
  "digit_char d = ''0123456789'' ! (d mod 10)"

fun digits_of_nat :: "nat \<Rightarrow> string" where
  "digits_of_nat n =
     (if n < 10 then [digit_char n] else digits_of_nat (n div 10) @ [digit_char (n mod 10)])"

declare digits_of_nat.simps [simp del]

subsection \<open>What the interpreter and the libraries supply\<close>

text \<open>
  The date parser (\<open>dateutil.parser.parse\<close>) and \<open>datetime.isoformat\<close> are not code of
  this repository; they enter as parameters, and every theorem holds for any behaviour
  of them. \<open>int_max_str_digits\<close> is the interpreter's limit on the number of digits
  \<open>int(str)\<close> and \<open>str(int)\<close> convert before raising \<open>ValueError\<close> (\<open>0\<close>: no limit).
  \<open>format_1f\<close> is the format specification \<open>.1f\<close> on a float.
\<close>

record runtime =
  date_parse :: "string \<Rightarrow> error + datetime"
  isoformat :: "datetime \<Rightarrow> string"
  format_1f :: "real \<Rightarrow> string"
  int_max_str_digits :: nat

definition too_many_digits :: "runtime \<Rightarrow> nat \<Rightarrow> bool" where
  "too_many_digits rt n = (int_max_str_digits rt \<noteq> 0 \<and> int_max_str_digits rt < n)"

text \<open>\<open>int(s)\<close> on a string of decimal digits, as a regular-expression group \<open>(\d+)\<close> is.\<close>

definition int_of_digits :: "runtime \<Rightarrow> string \<Rightarrow> error + int" where
  "int_of_digits rt ds =
     (if too_many_digits rt (length ds) then Inl ValueError
      else Inr (int (nat_of_digits ds)))"

text \<open>
  The digits of an integer literal given to \<open>int(s)\<close>: non-empty, decimal digits with
  single underscores between digits only.
\<close>

fun digits_with_underscores :: "string \<Rightarrow> bool" where
  "digits_with_underscores [] = False"
| "digits_with_underscores [c] = isdigit c"
| "digits_with_underscores (c # d # cs) =
     (isdigit c \<and> (if d = CHR ''_'' then digits_with_underscores cs
                    else digits_with_underscores (d # cs)))"

text \<open>\<open>int(s)\<close> on any string: surrounding white space, an optional sign, the digits.\<close>

definition int_of_string :: "runtime \<Rightarrow> string \<Rightarrow> error + int" where
  "int_of_string rt s =
     (let t = strip s;
          negative = starts_with ''-'' t;
          body = (if starts_with ''-'' t \<or> starts_with ''+'' t then tl t else t);
          ds = filter (\<lambda>c. c \<noteq> CHR ''_'') body
      in if \<not> digits_with_underscores body then Inl ValueError
         else if too_many_digits rt (length ds) then Inl ValueError
         else Inr (if negative then - int (nat_of_digits ds) else int (nat_of_digits ds)))"

text \<open>
  A value of the settings object, as the JSON settings file gives it: \<open>null\<close>, a boolean,
  an integer or a string. Numbers with a fraction, arrays and objects are left out of
  the model.
\<close>

datatype setting = SNull | SBool bool | SInt int | SStr string

type_synonym settings = "(string \<times> setting) list"

text \<open>\<open>settings.get(k)\<close> and \<open>settings.get(k, default)\<close>.\<close>

definition settings_get :: "settings \<Rightarrow> string \<Rightarrow> setting" where
  "settings_get s k = (case map_of s k of None \<Rightarrow> SNull | Some v \<Rightarrow> v)"

definition settings_get_default :: "settings \<Rightarrow> string \<Rightarrow> setting \<Rightarrow> setting" where
  "settings_get_default s k d = (case map_of s k of None \<Rightarrow> d | Some v \<Rightarrow> v)"

text \<open>\<open>int(v)\<close>.\<close>

fun py_int :: "runtime \<Rightarrow> setting \<Rightarrow> error + int" where
  "py_int rt SNull = Inl TypeError"
| "py_int rt (SBool b) = Inr (if b then 1 else 0)"
| "py_int rt (SInt n) = Inr n"
| "py_int rt (SStr s) = int_of_string rt s"

text \<open>\<open>str(v)\<close>.\<close>

fun py_str :: "runtime \<Rightarrow> setting \<Rightarrow> error + string" where
  "py_str rt SNull = Inr ''None''"
| "py_str rt (SBool b) = Inr (if b then ''True'' else ''False'')"
| "py_str rt (SInt n) =
     (let ds = digits_of_nat (nat \<bar>n\<bar>)
      in if too_many_digits rt (length ds) then Inl ValueError
         else Inr (if n < 0 then CHR ''-'' # ds else ds))"
| "py_str rt (SStr s) = Inr s"

fun setting_truthy :: "setting \<Rightarrow> bool" where
  "setting_truthy SNull = False"
| "setting_truthy (SBool b) = b"
| "setting_truthy (SInt n) = (n \<noteq> 0)"
| "setting_truthy (SStr s) = (s \<noteq> [])"

section \<open>Review filters (\<open>extractors/utils_filters.py\<close>)\<close>

record ReviewFilters =
  min_rating :: "int option"
  max_rating :: "int option"
  from_date :: "datetime option"

text \<open>\<open>parse_review_date\<close>: the library's result; its exceptions are logged and re-raised.\<close>

definition parse_review_date :: "runtime \<Rightarrow> string \<Rightarrow> error + datetime" where
  "parse_review_date rt text = (case date_parse rt text of Inl exc \<Rightarrow> Inl exc | Inr dt \<Rightarrow> Inr dt)"

text \<open>
  A rating bound of the settings: \<open>None\<close> stays \<open>None\<close>; otherwise \<open>int(v)\<close>, and \<open>None\<close>
  when that raises \<open>TypeError\<close> or \<open>ValueError\<close>.
\<close>

definition rating_bound :: "runtime \<Rightarrow> setting \<Rightarrow> int option" where
  "rating_bound rt v =
     (if v \<noteq> SNull then (case py_int rt v of Inl exc \<Rightarrow> None | Inr n \<Rightarrow> Some n) else None)"

definition from_settings :: "runtime \<Rightarrow> settings \<Rightarrow> ReviewFilters" where
  "from_settings rt s =
     (let min_r = rating_bound rt (settings_get s ''min_rating'');
          max_r = rating_bound rt (settings_get s ''max_rating'');
          from_date_raw = settings_get s ''from_date'';
          from_d =
            (if setting_truthy from_date_raw then
               (case py_str rt from_date_raw of
                  Inl exc \<Rightarrow> None
                | Inr text \<Rightarrow>
                    (case parse_review_date rt text of Inl exc \<Rightarrow> None | Inr dt \<Rightarrow> Some dt))
             else None)
      in \<lparr>min_rating = min_r, max_rating = max_r, from_date = from_d\<rparr>)"

definition passes_rating_filter :: "pydict \<Rightarrow> ReviewFilters \<Rightarrow> bool" where
  "passes_rating_filter review filters =
     (let rating = dict_get review ''latest_reviewer_rating'' in
      case as_int rating of
        None \<Rightarrow> (if min_rating filters = None \<and> max_rating filters = None then True else False)
      | Some r \<Rightarrow>
          (if (case min_rating filters of None \<Rightarrow> False | Some lo \<Rightarrow> r < lo) then False
           else if (case max_rating filters of None \<Rightarrow> False | Some hi \<Rightarrow> hi < r) then False
           else True))"

fun ensure_datetime :: "runtime \<Rightarrow> pyval \<Rightarrow> error + datetime" where
  "ensure_datetime rt (PDateTime d) = Inr d"
| "ensure_datetime rt (PStr s) = parse_review_date rt s"
| "ensure_datetime rt v = Inl TypeError"

text \<open>
  The date rule. The conversion of the review's date stands inside \<open>try\<close>; the comparison
  with \<open>from_date\<close> stands after it, so what the comparison raises leaves the function.
\<close>

definition passes_date_filter :: "runtime \<Rightarrow> pydict \<Rightarrow> ReviewFilters \<Rightarrow> error + bool" where
  "passes_date_filter rt review filters =
     (case from_date filters of
        None \<Rightarrow> Inr True
      | Some fd \<Rightarrow>
          (let date_raw = dict_get review ''review_date'' in
           if \<not> truthy date_raw then Inr False
           else (case ensure_datetime rt date_raw of
                   Inl exc \<Rightarrow> Inr False
                 | Inr review_dt \<Rightarrow> datetime_ge review_dt fd)))"

text \<open>
  \<open>apply_filters\<close>: the reviews that pass both rules, in order. The date rule is asked
  only for a review that passed the rating rule; an exception leaves the loop.
\<close>

fun apply_filters :: "runtime \<Rightarrow> pydict list \<Rightarrow> ReviewFilters \<Rightarrow> error + pydict list" where
  "apply_filters rt [] filters = Inr []"
| "apply_filters rt (review # reviews) filters =
     (if \<not> passes_rating_filter review filters then apply_filters rt reviews filters
      else (case passes_date_filter rt review filters of
              Inl exc \<Rightarrow> Inl exc
            | Inr keep \<Rightarrow>
                (case apply_filters rt reviews filters of
                   Inl exc \<Rightarrow> Inl exc
                 | Inr result \<Rightarrow> Inr (if keep then review # result else result))))"

section \<open>The document tree\<close>

text \<open>
  The parsed page: text nodes and elements with a tag name, attributes and children in
  document order. \<open>descendants\<close> lists what lies below a node in document order, as
  \<open>find_all\<close>, \<open>find\<close> and \<open>select\<close> walk it; the node itself is not among them.
\<close>

datatype node = Text string | Element string "(string \<times> string) list" "node list"

fun descendants :: "node \<Rightarrow> node list" where
  "descendants (Text s) = []"
| "descendants (Element name attributes cs) = concat (map (\<lambda>c. c # descendants c) cs)"

fun is_tag :: "string \<Rightarrow> node \<Rightarrow> bool" where
  "is_tag name (Text s) = False"
| "is_tag name (Element n attributes cs) = (n = name)"

text \<open>\<open>tag.get(k)\<close>.\<close>

fun attr :: "node \<Rightarrow> string \<Rightarrow> string option" where
  "attr (Text s) k = None"
| "attr (Element n attributes cs) k = map_of attributes k"

definition find_all :: "string \<Rightarrow> node \<Rightarrow> node list" where
  "find_all name n = filter (is_tag name) (descendants n)"

definition first_of :: "'a list \<Rightarrow> 'a option" where
  "first_of xs = (case xs of [] \<Rightarrow> None | x # rest \<Rightarrow> Some x)"

fun node_text :: "node \<Rightarrow> string list" where
  "node_text (Text s) = [s]"
| "node_text (Element n attributes cs) = []"

text \<open>
  \<open>tag.stripped_strings\<close>: the text nodes below the tag, stripped, the empty ones left
  out. The library leaves the strings inside \<open>script\<close>, \<open>style\<close> and \<open>template\<close>
  elements out; a \<open>Text\<close> node of the tree stands for a string it does read.
\<close>

definition stripped_strings :: "node \<Rightarrow> string list" where
  "stripped_strings n =
     filter (\<lambda>s. s \<noteq> []) (map strip (concat (map node_text (descendants n))))"

text \<open>\<open>tag.get_text(sep, strip=True)\<close>.\<close>

definition get_text :: "string \<Rightarrow> node \<Rightarrow> string" where
  "get_text sep n = join sep (stripped_strings n)"

section \<open>Field extraction strategies (\<open>extractors/yelp_parser.py\<close>)\<close>

subsection \<open>The regular expressions\<close>

text \<open>An \<open>aria-label\<close> in which \<open>star rating\<close> occurs, letter case ignored.\<close>

definition has_star_label :: "node \<Rightarrow> bool" where
  "has_star_label n =
     (case attr n ''aria-label'' of None \<Rightarrow> False | Some v \<Rightarrow> contains ''star rating'' (lower v))"

text \<open>\<open>re.search(r"(\d+)", s)\<close>: the first maximal run of digits.\<close>

definition first_digit_run :: "string \<Rightarrow> string option" where
  "first_digit_run s =
     (let r = dropWhile (\<lambda>c. \<not> isdigit c) s
      in if r = [] then None else Some (takeWhile isdigit r))"

text \<open>\<open>\b\<close> after a match that ends in a word character.\<close>

definition boundary_after :: "string \<Rightarrow> bool" where
  "boundary_after r = (case r of [] \<Rightarrow> True | c # cs \<Rightarrow> \<not> word_char c)"

text \<open>
  \<open>re.search\<close> for \<open>\b body \b\<close>, where \<open>body\<close> gives the length of the body's match at
  the head of a string (the bodies used start and end with a word character).
  \<open>prev_word\<close>: the character before the position is a word character.
\<close>

fun search_bounded :: "(string \<Rightarrow> nat option) \<Rightarrow> bool \<Rightarrow> string \<Rightarrow> bool" where
  "search_bounded body prev_word [] = False"
| "search_bounded body prev_word (c # cs) =
     ((\<not> prev_word \<and>
        (case body (c # cs) of None \<Rightarrow> False | Some n \<Rightarrow> boundary_after (drop n (c # cs))))
      \<or> search_bounded body (word_char c) cs)"

definition month_at :: "string \<Rightarrow> nat option" where
  "month_at s =
     (if 3 \<le> length s \<and>
         lower (take 3 s) \<in> set [''jan'', ''feb'', ''mar'', ''apr'', ''may'', ''jun'',
                                  ''jul'', ''aug'', ''sep'', ''oct'', ''nov'', ''dec'']
      then Some 3 else None)"

definition year_at :: "string \<Rightarrow> nat option" where
  "year_at s =
     (case s of
        a # b # c # d # rest \<Rightarrow>
          if a = CHR ''2'' \<and> b = CHR ''0'' \<and> isdigit c \<and> isdigit d then Some 4 else None
      | _ \<Rightarrow> None)"

text \<open>\<open>\b(Jan|Feb|...|Dec)\b\<close>, letter case ignored, and \<open>\b20\d{2}\b\<close>.\<close>

definition has_month :: "string \<Rightarrow> bool" where
  "has_month s = search_bounded month_at False s"

definition has_year :: "string \<Rightarrow> bool" where
  "has_year s = search_bounded year_at False s"

text \<open>
  The patterns \<open>(\d+)\s+word\<close> and \<open>(\d+)\s+words?\b\<close>, letter case ignored:
  \<open>count_phrase_at\<close> matches at the head of a string and gives group 1,
  \<open>search_count\<close> is \<open>re.search\<close>, the leftmost match. \<open>word\<close> is given in lower case;
  \<open>plural\<close> selects the second form.
\<close>

definition plural_boundary :: "string \<Rightarrow> bool" where
  "plural_boundary r =
     boundary_after (case r of [] \<Rightarrow> [] | c # cs \<Rightarrow> if lower_char c = CHR ''s'' then cs else r)"

definition count_phrase_at :: "string \<Rightarrow> bool \<Rightarrow> string \<Rightarrow> string option" where
  "count_phrase_at word plural s =
     (let ds = takeWhile isdigit s;
          r = dropWhile isdigit s;
          r2 = dropWhile isspace r
      in if ds \<noteq> [] \<and> r \<noteq> [] \<and> isspace (hd r) \<and>
            starts_with word (lower (take (length word) r2)) \<and>
            (\<not> plural \<or> plural_boundary (drop (length word) r2))
         then Some ds else None)"

fun search_count :: "string \<Rightarrow> bool \<Rightarrow> string \<Rightarrow> string option" where
  "search_count word plural [] = None"
| "search_count word plural (c # cs) =
     (case count_phrase_at word plural (c # cs) of
        Some ds \<Rightarrow> Some ds
      | None \<Rightarrow> search_count word plural cs)"

text \<open>The counter a pattern yields: \<open>0\<close> without a match or when \<open>int\<close> raises.\<close>

definition count_of :: "runtime \<Rightarrow> string \<Rightarrow> bool \<Rightarrow> string \<Rightarrow> int" where
  "count_of rt word plural text =
     (case search_count word plural text of
        None \<Rightarrow> 0
      | Some ds \<Rightarrow> (case int_of_digits rt ds of Inl exc \<Rightarrow> 0 | Inr n \<Rightarrow> n))"

subsection \<open>One strategy per field\<close>

definition opt_str :: "string option \<Rightarrow> pyval" where
  "opt_str v = (case v of None \<Rightarrow> PNone | Some s \<Rightarrow> PStr s)"

definition opt_int :: "int option \<Rightarrow> pyval" where
  "opt_int v = (case v of None \<Rightarrow> PNone | Some n \<Rightarrow> PInt n)"

definition is_profile_link :: "node \<Rightarrow> bool" where
  "is_profile_link link =
     (case attr link ''href'' of
        None \<Rightarrow> False
      | Some href \<Rightarrow> contains ''/user_details?'' href \<and> get_text [] link \<noteq> [])"

definition strong_text :: "node \<Rightarrow> string option" where
  "strong_text n =
     (case first_of (find_all ''strong'' n) of
        None \<Rightarrow> None
      | Some strong \<Rightarrow> if get_text [] strong \<noteq> [] then Some (get_text [] strong) else None)"

definition extract_reviewer_name :: "node \<Rightarrow> string option" where
  "extract_reviewer_name container =
     (case List.find is_profile_link (find_all ''a'' container) of
        Some link \<Rightarrow> Some (get_text [] link)
      | None \<Rightarrow> strong_text container)"

definition extract_avatar_url :: "node \<Rightarrow> string option" where
  "extract_avatar_url container =
     (case first_of (find_all ''img'' container) of
        None \<Rightarrow> None
      | Some img \<Rightarrow>
          (case attr img ''src'' of
             None \<Rightarrow> None
           | Some src \<Rightarrow> if src \<noteq> [] then Some src else None))"

definition extract_reviewer_details :: "runtime \<Rightarrow> node \<Rightarrow> pydict" where
  "extract_reviewer_details rt container =
     (let details_text = join '' '' (stripped_strings container)
      in [(''total_reviews'', PInt (count_of rt ''review'' True details_text)),
          (''total_friends'', PInt (count_of rt ''friend'' True details_text)),
          (''business_photos_uploaded'', PInt (count_of rt ''photo'' True details_text))])"

definition extract_reviewer_location :: "node \<Rightarrow> string option" where
  "extract_reviewer_location container =
     (let candidates =
            filter (\<lambda>text. CHR '','' \<in> set text \<and> (\<exists>c \<in> set text. isalpha c))
              (map (get_text []) (find_all ''span'' container))
      in first_of (sort_key length candidates))"

definition extract_reviewer_rating :: "runtime \<Rightarrow> node \<Rightarrow> int option" where
  "extract_reviewer_rating rt container =
     (case List.find has_star_label (descendants container) of
        None \<Rightarrow> None
      | Some rating_el \<Rightarrow>
          (let label = (case attr rating_el ''aria-label'' of None \<Rightarrow> [] | Some v \<Rightarrow> v)
           in case first_digit_run label of
                None \<Rightarrow> None
              | Some ds \<Rightarrow> (case int_of_digits rt ds of Inl exc \<Rightarrow> None | Inr n \<Rightarrow> Some n)))"

definition time_text :: "node \<Rightarrow> string option" where
  "time_text n = List.find (\<lambda>text. text \<noteq> []) (map (get_text []) (find_all ''time'' n))"

definition extract_review_date_raw :: "node \<Rightarrow> string option" where
  "extract_review_date_raw container =
     (case time_text container of
        Some text \<Rightarrow> Some text
      | None \<Rightarrow>
          List.find (\<lambda>text. has_month text \<or> has_year text)
            (map (get_text []) (find_all ''span'' container)))"

text \<open>The paragraphs of more than three words, joined by single spaces.\<close>

definition paragraphs_text :: "node \<Rightarrow> string option" where
  "paragraphs_text n =
     (let paragraphs =
            filter (\<lambda>text. 3 < count_words False text)
              (map (get_text '' '') (find_all ''p'' n))
      in if paragraphs \<noteq> [] then Some (join '' '' paragraphs) else None)"

definition extract_review_text :: "node \<Rightarrow> string option" where
  "extract_review_text container = paragraphs_text container"

text \<open>
  The media URLs. First loop: every \<open>img\<close> of the container; second loop: every
  \<open>source\<close> of every \<open>video\<close>. A source is appended unless it is missing, empty or in
  the list already; an image source must also contain \<open>yelp\<close>.
\<close>

fun add_image_urls :: "node list \<Rightarrow> string list \<Rightarrow> string list" where
  "add_image_urls [] urls = urls"
| "add_image_urls (img # imgs) urls =
     (case attr img ''src'' of
        None \<Rightarrow> add_image_urls imgs urls
      | Some src \<Rightarrow>
          if src \<noteq> [] \<and> contains ''yelp'' src \<and> src \<notin> set urls
          then add_image_urls imgs (urls @ [src])
          else add_image_urls imgs urls)"

fun add_source_urls :: "node list \<Rightarrow> string list \<Rightarrow> string list" where
  "add_source_urls [] urls = urls"
| "add_source_urls (source # sources) urls =
     (case attr source ''src'' of
        None \<Rightarrow> add_source_urls sources urls
      | Some src \<Rightarrow>
          if src \<noteq> [] \<and> src \<notin> set urls
          then add_source_urls sources (urls @ [src])
          else add_source_urls sources urls)"

fun add_video_urls :: "node list \<Rightarrow> string list \<Rightarrow> string list" where
  "add_video_urls [] urls = urls"
| "add_video_urls (video # videos) urls =
     add_video_urls videos (add_source_urls (find_all ''source'' video) urls)"

definition extract_review_media_urls :: "node \<Rightarrow> string list" where
  "extract_review_media_urls container =
     add_video_urls (find_all ''video'' container)
       (add_image_urls (find_all ''img'' container) [])"

definition extract_reaction_counts :: "runtime \<Rightarrow> node \<Rightarrow> int \<times> int \<times> int \<times> int" where
  "extract_reaction_counts rt container =
     (let text = join '' '' (stripped_strings container)
      in (count_of rt ''helpful'' False text,
          count_of rt ''thanks'' False text,
          count_of rt ''love this'' False text,
          count_of rt ''oh no'' False text))"

text \<open>
  The owner's response: the first \<open>div\<close> whose text has \<open>owner\<close> in it (the pattern
  \<open>Business Owner|Owner\<close>, letter case ignored). Its date goes through
  \<open>parse_review_date\<close>, whose exception leaves the function.
\<close>

definition response_date_raw :: "node \<Rightarrow> string option" where
  "response_date_raw block =
     (case time_text block of
        Some text \<Rightarrow> Some text
      | None \<Rightarrow> List.find has_month (map (get_text []) (find_all ''span'' block)))"

definition extract_business_response ::
  "runtime \<Rightarrow> node \<Rightarrow> error + (string option \<times> string option \<times> string option)" where
  "extract_business_response rt container =
     (case List.find (\<lambda>d. contains ''owner'' (lower (get_text '' '' d)))
             (find_all ''div'' container) of
        None \<Rightarrow> Inr (None, None, None)
      | Some response_block \<Rightarrow>
          (let author_name = strong_text response_block in
           case response_date_raw response_block of
             None \<Rightarrow> Inr (author_name, None, paragraphs_text response_block)
           | Some raw \<Rightarrow>
               (case parse_review_date rt raw of
                  Inl exc \<Rightarrow> Inl exc
                | Inr dt \<Rightarrow>
                    Inr (author_name, Some (isoformat rt dt), paragraphs_text response_block))))"

subsection \<open>One review container\<close>

text \<open>
  \<open>_parse_single_review\<close>: the strategies in the order of the source. The two calls of
  \<open>parse_review_date\<close> (the review's date and the response's date) are the ones that can
  raise.
\<close>

definition parse_single_review :: "runtime \<Rightarrow> node \<Rightarrow> error + pydict" where
  "parse_single_review rt container =
     (let reviewer_name = extract_reviewer_name container;
          avatar_url = extract_avatar_url container;
          reviewer_details = extract_reviewer_details rt container;
          reviewer_location = extract_reviewer_location container;
          reviewer_rating = extract_reviewer_rating rt container
      in case (case extract_review_date_raw container of
                 None \<Rightarrow> Inr None
               | Some raw \<Rightarrow>
                   (case parse_review_date rt raw of
                      Inl exc \<Rightarrow> Inl exc
                    | Inr dt \<Rightarrow> Inr (Some (isoformat rt dt)))) of
           Inl exc \<Rightarrow> Inl exc
         | Inr review_date_iso \<Rightarrow>
             (let review_text = extract_review_text container;
                  review_media_urls = extract_review_media_urls container;
                  (helpful_count, thanks_count, love_this_count, oh_no_count) =
                     extract_reaction_counts rt container
              in case extract_business_response rt container of
                   Inl exc \<Rightarrow> Inl exc
                 | Inr (response_author_name, response_date, response_content) \<Rightarrow>
                     Inr [(''latest_reviewer_name'', opt_str reviewer_name),
                          (''review_avatar_url'', opt_str avatar_url),
                          (''latest_reviewer_details'', PDict reviewer_details),
                          (''latest_reviewer_location'', opt_str reviewer_location),
                          (''latest_reviewer_rating'', opt_int reviewer_rating),
                          (''review_date'', opt_str review_date_iso),
                          (''review_text'', opt_str review_text),
                          (''review_media_urls'', PList (map PStr review_media_urls)),
                          (''helpful_count'', PInt helpful_count),
                          (''thanks_count'', PInt thanks_count),
                          (''love_this_count'', PInt love_this_count),
                          (''oh_no_count'', PInt oh_no_count),
                          (''response_author_name'', opt_str response_author_name),
                          (''response_date'', opt_str response_date),
                          (''response_content'', opt_str response_content)]))"

subsection \<open>All review containers of a page\<close>

text \<open>
  \<open>_locate_review_containers\<close>: the first strategy with a result wins: elements with a
  \<open>data-review-id\<close> attribute; \<open>li\<close> elements whose \<open>class\<close> contains \<open>review\<close>;
  \<open>section\<close> elements with a star-rating label below them.
\<close>

definition locate_review_containers :: "node \<Rightarrow> node list" where
  "locate_review_containers soup =
     (let by_id = filter (\<lambda>n. attr n ''data-review-id'' \<noteq> None) (descendants soup)
      in if by_id \<noteq> [] then by_id
         else
           (let by_class =
                  filter (\<lambda>n. case attr n ''class'' of
                                 None \<Rightarrow> False | Some v \<Rightarrow> contains ''review'' v)
                    (find_all ''li'' soup)
            in if by_class \<noteq> [] then by_class
               else filter (\<lambda>section. List.find has_star_label (descendants section) \<noteq> None)
                      (find_all ''section'' soup)))"

text \<open>
  The loop of \<open>_parse_reviews\<close>: \<open>try\<close> around each container, \<open>continue\<close> on any
  exception, \<open>append\<close> otherwise.
\<close>

fun parse_containers :: "runtime \<Rightarrow> node list \<Rightarrow> pydict list" where
  "parse_containers rt [] = []"
| "parse_containers rt (container # containers) =
     (case parse_single_review rt container of
        Inl exc \<Rightarrow> parse_containers rt containers
      | Inr review \<Rightarrow> review # parse_containers rt containers)"

definition parse_reviews :: "runtime \<Rightarrow> node \<Rightarrow> pydict list" where
  "parse_reviews rt soup = parse_containers rt (locate_review_containers soup)"

section \<open>Histogram and record assembly\<close>

text \<open>
  \<open>_build_rating_histogram\<close>: the counter gains one at \<open>rating\<close> for every review whose
  rating is an \<open>int\<close> with \<open>1 <= rating <= 5\<close>; the result has the keys \<open>1stars\<close> to
  \<open>5stars\<close>.
\<close>

fun count_ratings :: "pydict list \<Rightarrow> (int \<Rightarrow> int) \<Rightarrow> (int \<Rightarrow> int)" where
  "count_ratings [] counter = counter"
| "count_ratings (r # rs) counter =
     (case as_int (dict_get r ''latest_reviewer_rating'') of
        None \<Rightarrow> count_ratings rs counter
      | Some rating \<Rightarrow>
          if 1 \<le> rating \<and> rating \<le> 5
          then count_ratings rs (counter(rating := counter rating + 1))
          else count_ratings rs counter)"

definition build_rating_histogram :: "pydict list \<Rightarrow> pydict" where
  "build_rating_histogram reviews =
     (let counter = count_ratings reviews (\<lambda>stars. 0)
      in map (\<lambda>stars. (digits_of_nat (nat stars) @ ''stars'', PInt (counter stars)))
           [1, 2, 3, 4, 5])"

record BusinessInfo =
  business_url :: string
  business_name :: "string option"
  average_rating :: "real option"
  total_reviews_text :: "string option"
  price_range :: "string option"
  business_address :: "string option"
  contact_number :: "string option"

text \<open>\<open>xs[:m]\<close>: the first \<open>m\<close> elements; for a negative \<open>m\<close>, all but the last \<open>-m\<close>.\<close>

definition slice_to :: "'a list \<Rightarrow> int \<Rightarrow> 'a list" where
  "slice_to xs m = (if 0 \<le> m then take (nat m) xs else take (nat (int (length xs) + m)) xs)"

text \<open>The business part of an output record, before the review is merged into it.\<close>

definition business_record :: "runtime \<Rightarrow> BusinessInfo \<Rightarrow> pydict \<Rightarrow> pydict" where
  "business_record rt business review_counts_by_rating =
     [(''business_url'', PStr (business_url business)),
      (''business_name'', opt_str (business_name business)),
      (''average_rating'',
         (case average_rating business of
            None \<Rightarrow> PNone
          | Some x \<Rightarrow> PStr (format_1f rt x))),
      (''total_reviews'', opt_str (total_reviews_text business)),
      (''price_range'', opt_str (price_range business)),
      (''business_address'', opt_str (business_address business)),
      (''contact_number'', opt_str (contact_number business)),
      (''review_counts_by_rating'', PDict review_counts_by_rating)]"

text \<open>
  \<open>parse_business_page\<close> from the parsed page on. \<open>business\<close> is the value of
  \<open>_parse_business_info(soup, url)\<close>, which reads the page only and is computed before
  any review is looked at; no property below depends on how its fields were found, so
  it enters as an argument. The steps: parse the reviews, \<open>int(max_reviews)\<close>, slice,
  build the filters, filter, build the histogram, one record per review.
\<close>

definition parse_business_page ::
  "runtime \<Rightarrow> settings \<Rightarrow> BusinessInfo \<Rightarrow> node \<Rightarrow> error + pydict list" where
  "parse_business_page rt scraper_settings business soup =
     (let reviews = parse_reviews rt soup in
      case py_int rt (settings_get_default scraper_settings ''max_reviews'' (SInt 200)) of
        Inl exc \<Rightarrow> Inl exc
      | Inr max_reviews \<Rightarrow>
          (let reviews = slice_to reviews max_reviews;
               filters = from_settings rt scraper_settings
           in case apply_filters rt reviews filters of
                Inl exc \<Rightarrow> Inl exc
              | Inr reviews \<Rightarrow>
                  (let review_counts_by_rating = build_rating_histogram reviews
                   in Inr (map (\<lambda>review.
                                  dict_update (business_record rt business review_counts_by_rating)
                                    review)
                             reviews))))"

section \<open>Notions the properties are stated with\<close>

text \<open>
  The value of \<open>reviews\<close> in \<open>parse_business_page\<close> once \<open>apply_filters\<close> has returned:
  the reviews that survive truncation and filtering.
\<close>

definition filtered_reviews :: "runtime \<Rightarrow> settings \<Rightarrow> node \<Rightarrow> error + pydict list" where
  "filtered_reviews rt scraper_settings soup =
     (case py_int rt (settings_get_default scraper_settings ''max_reviews'' (SInt 200)) of
        Inl exc \<Rightarrow> Inl exc
      | Inr max_reviews \<Rightarrow>
          apply_filters rt (slice_to (parse_reviews rt soup) max_reviews)
            (from_settings rt scraper_settings))"

text \<open>A review that both rules of the filter let through.\<close>

definition kept_by :: "runtime \<Rightarrow> ReviewFilters \<Rightarrow> pydict \<Rightarrow> bool" where
  "kept_by rt filters review =
     (passes_rating_filter review filters \<and> passes_date_filter rt review filters = Inr True)"

definition review_keys :: "string list" where
  "review_keys =
     [''latest_reviewer_name'', ''review_avatar_url'', ''latest_reviewer_details'',
      ''latest_reviewer_location'', ''latest_reviewer_rating'', ''review_date'',
      ''review_text'', ''review_media_urls'', ''helpful_count'', ''thanks_count'',
      ''love_this_count'', ''oh_no_count'', ''response_author_name'', ''response_date'',
      ''response_content'']"

text \<open>The rating of a review as an integer, when it is one.\<close>

definition rating_of :: "pydict \<Rightarrow> int option" where
  "rating_of review = as_int (dict_get review ''latest_reviewer_rating'')"

text \<open>A review whose rating is a known integer from 1 to 5.\<close>

definition star_rated :: "pydict \<Rightarrow> bool" where
  "star_rated review = (case rating_of review of None \<Rightarrow> False | Some n \<Rightarrow> 1 \<le> n \<and> n \<le> 5)"

text \<open>
  The rating the first star-rating label below a container writes: the number of the
  first run of digits of the label; \<open>None\<close> without such a label, without a digit in
  it, or when the run has more digits than \<open>int\<close> converts.
\<close>

definition label_rating :: "runtime \<Rightarrow> node \<Rightarrow> pyval" where
  "label_rating rt container =
     (case List.find has_star_label (descendants container) of
        None \<Rightarrow> PNone
      | Some rating_el \<Rightarrow>
          (case attr rating_el ''aria-label'' of
             None \<Rightarrow> PNone
           | Some label \<Rightarrow>
               (case first_digit_run label of
                  None \<Rightarrow> PNone
                | Some ds \<Rightarrow>
                    if too_many_digits rt (length ds) then PNone
                    else PInt (int (nat_of_digits ds)))))"

text \<open>The count a histogram holds under a key, and the sum of its counts.\<close>

definition bucket :: "pydict \<Rightarrow> string \<Rightarrow> int" where
  "bucket h k = (case map_of h k of Some (PInt n) \<Rightarrow> n | _ \<Rightarrow> 0)"

definition bucket_sum :: "pydict \<Rightarrow> int" where
  "bucket_sum h = sum_list (map (bucket h) (map fst h))"

text \<open>The histogram an output record carries.\<close>

definition histogram_of :: "pydict \<Rightarrow> pydict" where
  "histogram_of r = (case dict_get r ''review_counts_by_rating'' of PDict h \<Rightarrow> h | _ \<Rightarrow> [])"

text \<open>The records of a run that returned; none for a run that raised.\<close>

definition the_records :: "error + pydict list \<Rightarrow> pydict list" where
  "the_records out = (case out of Inl exc \<Rightarrow> [] | Inr records \<Rightarrow> records)"

text \<open>The values one field takes in the output records, in order.\<close>

definition record_fields :: "string \<Rightarrow> error + pydict list \<Rightarrow> pyval list" where
  "record_fields k out =
     (case out of Inl exc \<Rightarrow> [] | Inr records \<Rightarrow> map (\<lambda>r. dict_get r k) records)"

definition review_fields :: "string \<Rightarrow> pydict list \<Rightarrow> pyval list" where
  "review_fields k reviews = map (\<lambda>r. dict_get r k) reviews"

definition opt_float :: "real option \<Rightarrow> pyval" where
  "opt_float v = (case v of None \<Rightarrow> PNone | Some x \<Rightarrow> PFloat x)"

text \<open>A list without the later occurrences of its elements.\<close>

definition keep_first :: "'a list \<Rightarrow> 'a list" where
  "keep_first xs = rev (remdups (rev xs))"

text \<open>
  The image sources a container offers (present, non-empty, with \<open>yelp\<close> in them) in
  document order, and the sources of its videos, video by video.
\<close>

definition image_candidates :: "node list \<Rightarrow> string list" where
  "image_candidates imgs =
     filter (\<lambda>src. src \<noteq> [] \<and> contains ''yelp'' src)
       (concat (map (\<lambda>img. case attr img ''src'' of None \<Rightarrow> [] | Some src \<Rightarrow> [src]) imgs))"

definition source_candidates :: "node list \<Rightarrow> string list" where
  "source_candidates sources =
     filter (\<lambda>src. src \<noteq> [])
       (concat (map (\<lambda>source. case attr source ''src'' of None \<Rightarrow> [] | Some src \<Rightarrow> [src])
                  sources))"

definition image_urls :: "node \<Rightarrow> string list" where
  "image_urls container = image_candidates (find_all ''img'' container)"

definition source_urls :: "node \<Rightarrow> string list" where
  "source_urls video = source_candidates (find_all ''source'' video)"

definition video_urls :: "node \<Rightarrow> string list" where
  "video_urls container = concat (map source_urls (find_all ''video'' container))"

text \<open>
  The same sources in one pass over the container in document order: an image source
  where an \<open>img\<close> stands, a video source where a \<open>source\<close> stands below a \<open>video\<close>.
\<close>

fun media_walk :: "bool \<Rightarrow> node \<Rightarrow> string list" where
  "media_walk in_video (Text s) = []"
| "media_walk in_video (Element n attributes cs) =
     (case map_of attributes ''src'' of
        None \<Rightarrow> []
      | Some src \<Rightarrow>
          if n = ''img'' \<and> src \<noteq> [] \<and> contains ''yelp'' src then [src]
          else if n = ''source'' \<and> in_video \<and> src \<noteq> [] then [src]
          else [])
     @ concat (map (media_walk (in_video \<or> n = ''video'')) cs)"

fun document_order_media :: "node \<Rightarrow> string list" where
  "document_order_media (Text s) = []"
| "document_order_media (Element n attributes cs) = concat (map (media_walk False) cs)"

section \<open>Sample inputs\<close>

text \<open>
  A runtime for the examples: the date parser and \<open>isoformat\<close> on the handful of
  strings the examples use (every other string is refused with \<open>ValueError\<close>), the
  default digit limit, and a float formatted by rounding to one decimal, ties to even
  (a real number has no negative zero, so \<open>-0.0\<close> is never printed).
\<close>

definition format_one_decimal :: "real \<Rightarrow> string" where
  "format_one_decimal x =
     (let y = \<bar>x\<bar> * 10;
          f = \<lfloor>y\<rfloor>;
          t = nat (if y - of_int f < 1 / 2 then f
                   else if 1 / 2 < y - of_int f then f + 1
                   else if even f then f else f + 1)
      in (if x < 0 then ''-'' else []) @ digits_of_nat (t div 10) @ ''.'' @ [digit_char (t mod 10)])"

definition sample_parse :: "string \<Rightarrow> error + datetime" where
  "sample_parse s =
     (case map_of [(''Jan 5, 2024'', DateTime 1704412800 None),
                   (''2024-01-05T00:00:00'', DateTime 1704412800 None),
                   (''2024-01-01'', DateTime 1704067200 None),
                   (''2024-01-01T00:00:00Z'', DateTime 1704067200 (Some 0)),
                   (''2024-01-05T10:00:00Z'', DateTime 1704448800 (Some 0)),
                   (''2024-01-05T10:00:00+00:00'', DateTime 1704448800 (Some 0))] s of
        None \<Rightarrow> Inl ValueError
      | Some d \<Rightarrow> Inr d)"

definition sample_isoformat :: "datetime \<Rightarrow> string" where
  "sample_isoformat d =
     (case map_of [(DateTime 1704412800 None, ''2024-01-05T00:00:00''),
                   (DateTime 1704067200 None, ''2024-01-01T00:00:00''),
                   (DateTime 1704448800 (Some 0), ''2024-01-05T10:00:00+00:00'')] d of
        None \<Rightarrow> []
      | Some s \<Rightarrow> s)"

definition sample_runtime :: runtime where
  "sample_runtime =
     \<lparr>date_parse = sample_parse, isoformat = sample_isoformat,
      format_1f = format_one_decimal, int_max_str_digits = 4300\<rparr>"

text \<open>A review container with a star-rating label, a date and a paragraph.\<close>

definition sample_container :: "string \<Rightarrow> string \<Rightarrow> node" where
  "sample_container label date_text =
     Element ''div'' [(''data-review-id'', ''r'')]
       [Element ''span'' [(''aria-label'', label)] [],
        Element ''time'' [] [Text date_text],
        Element ''p'' [] [Text ''Great food and friendly staff'']]"

definition sample_page :: "node list \<Rightarrow> node" where
  "sample_page containers = Element ''body'' [] containers"

definition sample_business :: BusinessInfo where
  "sample_business =
     \<lparr>business_url = ''https://www.yelp.com/biz/cafe'', business_name = Some ''Cafe'',
      average_rating = Some (45 / 10), total_reviews_text = Some ''12 reviews'',
      price_range = Some ''$$'', business_address = None, contact_number = None\<rparr>"

text \<open>Three reviews with 5, 3 and 5 stars.\<close>

definition three_reviews :: node where
  "three_reviews =
     sample_page [sample_container ''5 star rating'' ''Jan 5, 2024'',
                  sample_container ''3 star rating'' ''Jan 5, 2024'',
                  sample_container ''5 star rating'' ''Jan 5, 2024'']"

text \<open>Three containers; the date of the second one cannot be parsed.\<close>

definition broken_second :: node where
  "broken_second =
     sample_page [sample_container ''5 star rating'' ''Jan 5, 2024'',
                  sample_container ''4 star rating'' ''garbage'',
                  sample_container ''2 star rating'' ''Jan 5, 2024'']"

text \<open>A container whose label reads \<open>10 star rating\<close>.\<close>

definition ten_stars :: node where
  "ten_stars = sample_page [sample_container ''10 star rating'' ''Jan 5, 2024'']"

text \<open>A container with a video before an image.\<close>

definition video_then_image :: node where
  "video_then_image =
     Element ''div'' [(''data-review-id'', ''r'')]
       [Element ''video'' [] [Element ''source'' [(''src'', ''clip.mp4'')] []],
        Element ''img'' [(''src'', ''https://s3.yelp.com/photo.jpg'')] []]"

text \<open>Settings whose \<open>from_date\<close> carries a UTC offset; the reviews' dates carry none.\<close>

definition aware_from_date :: settings where
  "aware_from_date = [(''from_date'', SStr ''2024-01-01T00:00:00Z'')]"

text \<open>A container whose label reads \<open>4 of 5 star rating\<close>.\<close>

definition four_of_five :: node where
  "four_of_five = sample_page [sample_container ''4 of 5 star rating'' ''Jan 5, 2024'']"

text \<open>Settings with a negative \<open>max_reviews\<close>.\<close>

definition max_minus_one :: settings where
  "max_minus_one = [(''max_reviews'', SInt (- 1))]"

text \<open>Settings that keep two reviews and ask for four stars or more.\<close>

definition first_two_min_four :: settings where
  "first_two_min_four = [(''max_reviews'', SInt 2), (''min_rating'', SInt 4)]"

text \<open>Two reviews as the filter and the histogram builder may receive them.\<close>

definition five_star_review :: pydict where
  "five_star_review = [(''latest_reviewer_rating'', PInt 5)]"

definition unrated_review :: pydict where
  "unrated_review = [(''latest_reviewer_rating'', PNone)]"

section \<open>Basic facts\<close>

lemma map_of_dict_set: "map_of (dict_set k v d) k' = (if k' = k then Some v else map_of d k')"
  by (induction d) auto

lemma map_of_dict_update:
  "k \<notin> fst ` set e \<Longrightarrow> map_of (dict_update d e) k = map_of d k"
  by (induction d e rule: dict_update.induct) (auto simp: map_of_dict_set)

lemma parse_single_review_keys:
  "parse_single_review rt c = Inr r \<Longrightarrow> map fst r = review_keys"
  unfolding parse_single_review_def review_keys_def
  by (auto simp: Let_def split: sum.splits option.splits prod.splits)

lemma parse_containers_keys:
  "r \<in> set (parse_containers rt cs) \<Longrightarrow> map fst r = review_keys"
  by (induction cs) (auto split: sum.splits dest: parse_single_review_keys)

lemma apply_filters_eq:
  "apply_filters rt rs f = Inr out \<Longrightarrow> out = filter (kept_by rt f) rs"
proof (induction rs arbitrary: out)
  case Nil
  then show ?case by simp
next
  case (Cons r rs)
  then show ?case
    by (auto simp: kept_by_def split: if_splits sum.splits)
qed

lemma set_slice_to: "set (slice_to xs m) \<subseteq> set xs"
  by (auto simp: slice_to_def dest: in_set_takeD)

lemma parse_business_page_eq:
  "parse_business_page rt s b soup =
     (case filtered_reviews rt s soup of
        Inl exc \<Rightarrow> Inl exc
      | Inr kept \<Rightarrow>
          Inr (map (dict_update (business_record rt b (build_rating_histogram kept))) kept))"
  by (simp add: parse_business_page_def filtered_reviews_def Let_def split: sum.splits)

lemma count_ratings_at:
  "count_ratings rs c k = c k + int (length (filter (\<lambda>r. star_rated r \<and> rating_of r = Some k) rs))"
  by (induction rs arbitrary: c) (auto simp: star_rated_def rating_of_def split: option.splits)

lemma build_rating_histogram_eq:
  "build_rating_histogram rs =
     [(''1stars'', PInt (count_ratings rs (\<lambda>stars. 0) 1)),
      (''2stars'', PInt (count_ratings rs (\<lambda>stars. 0) 2)),
      (''3stars'', PInt (count_ratings rs (\<lambda>stars. 0) 3)),
      (''4stars'', PInt (count_ratings rs (\<lambda>stars. 0) 4)),
      (''5stars'', PInt (count_ratings rs (\<lambda>stars. 0) 5))]"
  by (simp add: build_rating_histogram_def Let_def digits_of_nat.simps digit_char_def)

lemma bucket_sum_histogram:
  "bucket_sum (build_rating_histogram rs) =
     count_ratings rs (\<lambda>stars. 0) 1 + count_ratings rs (\<lambda>stars. 0) 2 +
     count_ratings rs (\<lambda>stars. 0) 3 + count_ratings rs (\<lambda>stars. 0) 4 +
     count_ratings rs (\<lambda>stars. 0) 5"
  by (simp add: build_rating_histogram_eq bucket_sum_def bucket_def)

lemma star_rated_split:
  "(if star_rated r then 1 else 0) =
     (\<Sum>k\<leftarrow>[1, 2, 3, 4, 5]. if star_rated r \<and> rating_of r = Some k then 1 else (0::int))"
proof (cases "rating_of r")
  case None
  then show ?thesis by (simp add: star_rated_def)
next
  case (Some n)
  consider "n < 1 \<or> 5 < n" | "n = 1" | "n = 2" | "n = 3" | "n = 4" | "n = 5" by arith
  then show ?thesis using Some by cases (auto simp: star_rated_def)
qed

lemma length_filter_star_rated:
  "int (length (filter star_rated rs)) =
     (\<Sum>k\<leftarrow>[1, 2, 3, 4, 5]. int (length (filter (\<lambda>r. star_rated r \<and> rating_of r = Some k) rs)))"
proof (induction rs)
  case Nil
  then show ?case by simp
next
  case (Cons r rs)
  have "int (length (filter star_rated (r # rs))) =
        (if star_rated r then 1 else 0) + int (length (filter star_rated rs))" by simp
  also have "\<dots> = (\<Sum>k\<leftarrow>[1, 2, 3, 4, 5]. if star_rated r \<and> rating_of r = Some k then 1 else (0::int))
                 + int (length (filter star_rated rs))"
    by (simp only: star_rated_split)
  finally show ?case using Cons by simp
qed

lemma bucket_sum_count:
  "bucket_sum (build_rating_histogram rs) = int (length (filter star_rated rs))"
  by (simp add: bucket_sum_histogram count_ratings_at length_filter_star_rated)

lemma filtered_members:
  assumes "filtered_reviews rt s soup = Inr kept" and "r \<in> set kept"
  shows "map fst r = review_keys"
proof -
  obtain m where "kept = filter (kept_by rt (from_settings rt s)) (slice_to (parse_reviews rt soup) m)"
    using assms(1) by (auto simp: filtered_reviews_def split: sum.splits dest: apply_filters_eq)
  with assms(2) have "r \<in> set (parse_reviews rt soup)"
    using set_slice_to [of "parse_reviews rt soup" m] by auto
  then show ?thesis
    by (auto simp: parse_reviews_def dest: parse_containers_keys)
qed

lemma record_business_part:
  assumes "map fst r = review_keys" and "k \<notin> set review_keys"
  shows "map_of (dict_update base r) k = map_of base k"
proof -
  have "fst ` set r = set review_keys" using assms(1) by (metis set_map)
  then show ?thesis using assms(2) by (simp add: map_of_dict_update)
qed

lemma length_filter_all: "(length (filter P xs) = length xs) = list_all P xs"
proof (induction xs)
  case Nil
  then show ?case by simp
next
  case (Cons x xs)
  have "length (filter P xs) \<le> length xs" by simp
  then have "length (filter P xs) \<noteq> Suc (length xs)" by arith
  with Cons show ?case by simp
qed

lemma count_ratings_skip:
  "\<not> star_rated r \<Longrightarrow> count_ratings (r # rs) c = count_ratings rs c"
  by (auto simp: star_rated_def rating_of_def split: option.splits)

section \<open>Facts about lists, slices and the loops\<close>

lemma parse_containers_append:
  "parse_containers rt (xs @ ys) = parse_containers rt xs @ parse_containers rt ys"
  by (induction xs) (auto split: sum.splits)

lemma slice_to_take: "0 \<le> m \<Longrightarrow> slice_to xs m = take (nat m) xs"
  by (simp add: slice_to_def)

lemma unparseable_date_raises:
  "extract_review_date_raw c = Some raw \<Longrightarrow> date_parse rt raw = Inl exc \<Longrightarrow>
   parse_single_review rt c = Inl exc"
  by (simp add: parse_single_review_def parse_review_date_def Let_def)

lemma rating_only_filters:
  assumes "from_date f = None"
  shows "apply_filters rt rs f = Inr (filter (\<lambda>r. passes_rating_filter r f) rs)"
  using assms by (induction rs) (auto simp: passes_date_filter_def)

lemma max_200_min_4:
  assumes "s = [(''max_reviews'', SInt 200), (''min_rating'', SInt 4)]"
  shows "\<exists>records. parse_business_page rt s b soup = Inr records \<and>
           length records =
             length (filter (\<lambda>r. case rating_of r of None \<Rightarrow> False | Some n \<Rightarrow> 4 \<le> n)
                       (take 200 (parse_reviews rt soup)))"
proof -
  have f: "from_settings rt s = \<lparr>min_rating = Some 4, max_rating = None, from_date = None\<rparr>"
    by (simp add: assms from_settings_def settings_get_def rating_bound_def Let_def)
  have m: "py_int rt (settings_get_default s ''max_reviews'' (SInt 200)) = Inr 200"
    by (simp add: assms settings_get_default_def)
  have p: "(\<lambda>r. passes_rating_filter r \<lparr>min_rating = Some 4, max_rating = None, from_date = None\<rparr>)
           = (\<lambda>r. case rating_of r of None \<Rightarrow> False | Some n \<Rightarrow> 4 \<le> n)"
    by (auto simp: passes_rating_filter_def rating_of_def Let_def split: option.splits)
  show ?thesis
    by (simp add: parse_business_page_eq filtered_reviews_def m f rating_only_filters p slice_to_def)
qed

lemma business_part_of_records:
  assumes "parse_business_page rt s b soup = Inr records" and "rec \<in> set records"
    and "k \<notin> set review_keys"
  shows "\<exists>kept. filtered_reviews rt s soup = Inr kept \<and>
           map_of rec k = map_of (business_record rt b (build_rating_histogram kept)) k"
proof -
  from assms(1) obtain kept where kept: "filtered_reviews rt s soup = Inr kept"
    and recs: "records = map (dict_update (business_record rt b (build_rating_histogram kept))) kept"
    by (auto simp: parse_business_page_eq split: sum.splits)
  from assms(2) recs obtain r where r: "r \<in> set kept"
    and rec: "rec = dict_update (business_record rt b (build_rating_histogram kept)) r"
    by auto
  have "map fst r = review_keys" using filtered_members [OF kept r] .
  then have "map_of rec k = map_of (business_record rt b (build_rating_histogram kept)) k"
    unfolding rec using assms(3) by (rule record_business_part)
  with kept show ?thesis by blast
qed

lemma extract_reviewer_rating_nonneg:
  "extract_reviewer_rating rt c = Some n \<Longrightarrow> 0 \<le> n"
  by (auto simp: extract_reviewer_rating_def int_of_digits_def Let_def
           split: option.splits sum.splits if_splits)

lemma parse_single_review_rating:
  "parse_single_review rt c = Inr r \<Longrightarrow>
   dict_get r ''latest_reviewer_rating'' = opt_int (extract_reviewer_rating rt c)"
  unfolding parse_single_review_def
  by (auto simp: Let_def dict_get_def split: sum.splits option.splits prod.splits)

lemma parse_containers_source:
  "r \<in> set (parse_containers rt cs) \<Longrightarrow> \<exists>c \<in> set cs. parse_single_review rt c = Inr r"
  by (induction cs) (auto split: sum.splits)

lemma remdups_drop_known:
  "x \<in> set zs \<Longrightarrow> remdups (ys @ x # zs) = remdups (ys @ zs)"
  by (induction ys) auto

lemma keep_first_known:
  assumes "x \<in> set urls"
  shows "keep_first (urls @ x # xs) = keep_first (urls @ xs)"
proof -
  have "remdups (rev xs @ x # rev urls) = remdups (rev xs @ rev urls)"
    using assms by (intro remdups_drop_known) simp
  then show ?thesis by (simp add: keep_first_def)
qed

lemma keep_first_distinct: "distinct xs \<Longrightarrow> keep_first xs = xs"
  by (simp add: keep_first_def distinct_remdups_id)

lemma distinct_keep_first: "distinct (keep_first xs)"
  by (simp add: keep_first_def)

lemma set_keep_first: "set (keep_first xs) = set xs"
  by (simp add: keep_first_def)

lemma remdups_append_remdups: "remdups (ys @ remdups xs) = remdups (ys @ xs)"
  by (induction ys) auto

lemma keep_first_append_keep_first:
  "keep_first (keep_first xs @ ys) = keep_first (xs @ ys)"
  by (simp add: keep_first_def remdups_append_remdups)

lemma add_image_urls_eq:
  "add_image_urls imgs urls = keep_first (urls @ image_candidates imgs)" if "distinct urls"
  using that
proof (induction imgs arbitrary: urls)
  case Nil
  then show ?case by (simp add: image_candidates_def keep_first_distinct)
next
  case (Cons img imgs)
  show ?case
  proof (cases "attr img ''src''")
    case None
    then show ?thesis using Cons by (simp add: image_candidates_def)
  next
    case (Some src)
    show ?thesis
    proof (cases "src \<noteq> [] \<and> contains ''yelp'' src")
      case False
      then show ?thesis using Some Cons by (auto simp: image_candidates_def)
    next
      case True
      then have cand: "image_candidates (img # imgs) = src # image_candidates imgs"
        using Some by (simp add: image_candidates_def)
      show ?thesis
      proof (cases "src \<in> set urls")
        case True
        then show ?thesis using Some Cons cand by (simp add: keep_first_known)
      next
        case False
        then have "distinct (urls @ [src])" using Cons.prems by simp
        from Cons.IH [OF this] show ?thesis
          using Some True False cand by simp
      qed
    qed
  qed
qed

lemma add_source_urls_eq:
  "add_source_urls sources urls = keep_first (urls @ source_candidates sources)" if "distinct urls"
  using that
proof (induction sources arbitrary: urls)
  case Nil
  then show ?case by (simp add: source_candidates_def keep_first_distinct)
next
  case (Cons source sources)
  show ?case
  proof (cases "attr source ''src''")
    case None
    then show ?thesis using Cons by (simp add: source_candidates_def)
  next
    case (Some src)
    show ?thesis
    proof (cases "src \<noteq> []")
      case False
      then show ?thesis using Some Cons by (auto simp: source_candidates_def)
    next
      case True
      then have cand: "source_candidates (source # sources) = src # source_candidates sources"
        using Some by (simp add: source_candidates_def)
      show ?thesis
      proof (cases "src \<in> set urls")
        case True
        then show ?thesis using Some Cons cand by (simp add: keep_first_known)
      next
        case False
        then have "distinct (urls @ [src])" using Cons.prems by simp
        from Cons.IH [OF this] show ?thesis
          using Some True False cand by simp
      qed
    qed
  qed
qed

lemma add_video_urls_eq:
  "add_video_urls videos urls =
     keep_first (urls @ concat (map source_urls videos))"
  if "distinct urls"
  using that
proof (induction videos arbitrary: urls)
  case Nil
  then show ?case by (simp add: keep_first_distinct)
next
  case (Cons video videos)
  have "distinct (add_source_urls (find_all ''source'' video) urls)"
    using Cons.prems by (simp add: add_source_urls_eq distinct_keep_first)
  from Cons.IH [OF this] show ?case
    using Cons.prems
    by (simp add: add_source_urls_eq keep_first_append_keep_first source_urls_def)
qed

lemma date_rule_unset: "from_date f = None \<Longrightarrow> passes_date_filter rt review f = Inr True"
  by (simp add: passes_date_filter_def)

lemma date_rule_no_date:
  "from_date f = Some fd \<Longrightarrow> \<not> truthy (dict_get review ''review_date'') \<Longrightarrow>
   passes_date_filter rt review f = Inr False"
  by (simp add: passes_date_filter_def)

lemma date_rule_unparseable:
  "from_date f = Some fd \<Longrightarrow> truthy (dict_get review ''review_date'') \<Longrightarrow>
   ensure_datetime rt (dict_get review ''review_date'') = Inl exc \<Longrightarrow>
   passes_date_filter rt review f = Inr False"
  by (simp add: passes_date_filter_def)

lemma date_rule_compared:
  "from_date f = Some fd \<Longrightarrow> truthy (dict_get review ''review_date'') \<Longrightarrow>
   ensure_datetime rt (dict_get review ''review_date'') = Inr dt \<Longrightarrow>
   passes_date_filter rt review f = datetime_ge dt fd"
  by (simp add: passes_date_filter_def)

lemma datetime_ge_same_kind:
  "(utc_offset a = None) = (utc_offset b = None) \<Longrightarrow> \<exists>keep. datetime_ge a b = Inr keep"
  by (cases a; cases b; cases "utc_offset a"; cases "utc_offset b") auto

lemma datetime_ge_mixed:
  "(utc_offset a = None) \<noteq> (utc_offset b = None) \<Longrightarrow> datetime_ge a b = Inl TypeError"
  by (cases a; cases b; cases "utc_offset a"; cases "utc_offset b") auto

lemma date_rule_mixed:
  "from_date f = Some fd \<Longrightarrow> truthy (dict_get review ''review_date'') \<Longrightarrow>
   ensure_datetime rt (dict_get review ''review_date'') = Inr dt \<Longrightarrow>
   (utc_offset dt = None) \<noteq> (utc_offset fd = None) \<Longrightarrow>
   passes_date_filter rt review f = Inl TypeError"
  by (simp add: date_rule_compared datetime_ge_mixed)

lemma apply_filters_raises:
  "passes_rating_filter review f \<Longrightarrow> passes_date_filter rt review f = Inl exc \<Longrightarrow>
   apply_filters rt (review # reviews) f = Inl exc"
  by simp

lemma slice_to_negative:
  "m < 0 \<Longrightarrow> slice_to xs m = take (length xs - nat (- m)) xs"
proof -
  assume "m < 0"
  then have "nat (int (length xs) + m) = length xs - nat (- m)" by arith
  with \<open>m < 0\<close> show ?thesis by (simp add: slice_to_def)
qed

lemma count_ratings_bucket:
  assumes "1 \<le> k" and "k \<le> 5"
  shows "count_ratings rs (\<lambda>stars. 0) k = int (length (filter (\<lambda>r. rating_of r = Some k) rs))"
proof -
  have "(\<lambda>r. star_rated r \<and> rating_of r = Some k) = (\<lambda>r. rating_of r = Some k)"
    using assms by (auto simp: star_rated_def)
  then show ?thesis by (simp add: count_ratings_at)
qed

lemma histogram_buckets:
  "dict_get (build_rating_histogram rs) ''1stars'' = PInt (int (length (filter (\<lambda>r. rating_of r = Some 1) rs)))"
  "dict_get (build_rating_histogram rs) ''2stars'' = PInt (int (length (filter (\<lambda>r. rating_of r = Some 2) rs)))"
  "dict_get (build_rating_histogram rs) ''3stars'' = PInt (int (length (filter (\<lambda>r. rating_of r = Some 3) rs)))"
  "dict_get (build_rating_histogram rs) ''4stars'' = PInt (int (length (filter (\<lambda>r. rating_of r = Some 4) rs)))"
  "dict_get (build_rating_histogram rs) ''5stars'' = PInt (int (length (filter (\<lambda>r. rating_of r = Some 5) rs)))"
  by (simp_all add: build_rating_histogram_eq dict_get_def count_ratings_bucket)

lemma first_digit_run_shape:
  assumes "first_digit_run label = Some ds"
  shows "\<exists>pre post. label = pre @ ds @ post \<and> (\<forall>c \<in> set pre. \<not> isdigit c) \<and> ds \<noteq> []
           \<and> (\<forall>c \<in> set ds. isdigit c) \<and> (post = [] \<or> \<not> isdigit (hd post))"
proof -
  let ?pre = "takeWhile (\<lambda>c. \<not> isdigit c) label"
  let ?r = "dropWhile (\<lambda>c. \<not> isdigit c) label"
  let ?post = "dropWhile isdigit ?r"
  from assms have r: "?r \<noteq> []" and ds: "ds = takeWhile isdigit ?r"
    by (auto simp: first_digit_run_def Let_def split: if_splits)
  have "label = ?pre @ ?r" by simp
  also have "?r = ds @ ?post" by (simp add: ds)
  finally have split: "label = ?pre @ ds @ ?post" .
  have pre: "\<forall>c \<in> set ?pre. \<not> isdigit c" by (auto dest: set_takeWhileD)
  have "isdigit (hd ?r)" using r hd_dropWhile [of "\<lambda>c. \<not> isdigit c" label] by simp
  then have ne: "ds \<noteq> []" using r by (cases ?r) (auto simp: ds)
  have all: "\<forall>c \<in> set ds. isdigit c" by (auto simp: ds dest: set_takeWhileD)
  have post: "?post = [] \<or> \<not> isdigit (hd ?post)"
    using hd_dropWhile [of isdigit ?r] by blast
  from split pre ne all post show ?thesis by blast
qed

lemma find_has_label:
  "List.find has_star_label ns = Some el \<Longrightarrow> \<exists>v. attr el ''aria-label'' = Some v"
  by (auto simp: find_Some_iff has_star_label_def split: option.splits)

lemma extract_reviewer_rating_eq:
  "opt_int (extract_reviewer_rating rt c) = label_rating rt c"
proof (cases "List.find has_star_label (descendants c)")
  case None
  then show ?thesis by (simp add: extract_reviewer_rating_def label_rating_def opt_int_def)
next
  case (Some el)
  from find_has_label [OF Some] obtain v where v: "attr el ''aria-label'' = Some v" by blast
  show ?thesis
    by (simp add: extract_reviewer_rating_def label_rating_def opt_int_def Some v Let_def
                  int_of_digits_def split: option.splits)
qed

subsection \<open>The sample inputs, evaluated\<close>

lemma three_reviews_run:
  "parse_business_page sample_runtime first_two_min_four sample_business three_reviews =
     Inr (the_records
            (parse_business_page sample_runtime first_two_min_four sample_business three_reviews))"
  by code_simp

lemma three_reviews_unfiltered_run:
  "parse_business_page sample_runtime [] sample_business three_reviews =
     Inr (the_records (parse_business_page sample_runtime [] sample_business three_reviews))"
  by code_simp

lemma three_reviews_output_length:
  "length (the_records
             (parse_business_page sample_runtime first_two_min_four sample_business three_reviews)) = 1"
  by code_simp

lemma three_reviews_kept_of_all:
  "length (filter (kept_by sample_runtime (from_settings sample_runtime first_two_min_four))
             (parse_reviews sample_runtime three_reviews)) = 2"
  by code_simp

lemma three_reviews_ratings:
  "review_fields ''latest_reviewer_rating'' (parse_reviews sample_runtime three_reviews) =
     [PInt 5, PInt 3, PInt 5]"
  by code_simp

lemma three_reviews_histograms:
  "record_fields ''review_counts_by_rating''
     (parse_business_page sample_runtime [] sample_business three_reviews) =
   replicate 3
     (PDict [(''1stars'', PInt 0), (''2stars'', PInt 0), (''3stars'', PInt 1),
             (''4stars'', PInt 0), (''5stars'', PInt 2)])"
  by code_simp

lemma three_reviews_business_fields:
  "record_fields ''business_name''
     (parse_business_page sample_runtime first_two_min_four sample_business three_reviews) =
     [PStr ''Cafe'']"
  "record_fields ''average_rating''
     (parse_business_page sample_runtime first_two_min_four sample_business three_reviews) =
     [PStr ''4.5'']"
  by code_simp+

lemma broken_second_containers:
  "locate_review_containers broken_second =
     [sample_container ''5 star rating'' ''Jan 5, 2024''] @
     sample_container ''4 star rating'' ''garbage'' #
     [sample_container ''2 star rating'' ''Jan 5, 2024'']"
  by code_simp

lemma broken_second_raises:
  "parse_single_review sample_runtime (sample_container ''4 star rating'' ''garbage'') =
     Inl ValueError"
  by code_simp

lemma broken_second_ratings:
  "review_fields ''latest_reviewer_rating''
     (parse_containers sample_runtime [sample_container ''5 star rating'' ''Jan 5, 2024''] @
      parse_containers sample_runtime [sample_container ''2 star rating'' ''Jan 5, 2024'']) =
     [PInt 5, PInt 2]"
  by code_simp

lemma video_then_image_sources:
  "keep_first (image_urls video_then_image @ video_urls video_then_image) =
     [''https://s3.yelp.com/photo.jpg'', ''clip.mp4'']"
  by code_simp

lemma minus_one_run:
  "parse_business_page sample_runtime max_minus_one sample_business three_reviews =
     Inr (the_records (parse_business_page sample_runtime max_minus_one sample_business three_reviews))"
  by code_simp

lemma minus_one_length:
  "length (the_records
     (parse_business_page sample_runtime max_minus_one sample_business three_reviews)) = 2"
  by code_simp

lemma three_reviews_length: "length (parse_reviews sample_runtime three_reviews) = 3"
  by code_simp

lemma four_of_five_ratings:
  "review_fields ''latest_reviewer_rating'' (parse_reviews sample_runtime four_of_five) = [PInt 4]"
  by code_simp

lemma four_of_five_label:
  "label_rating sample_runtime (sample_container ''4 of 5 star rating'' ''Jan 5, 2024'') = PInt 4"
  "first_digit_run ''4 of 5 star rating'' = Some ''4''"
  "locate_review_containers four_of_five = [sample_container ''4 of 5 star rating'' ''Jan 5, 2024'']"
  by code_simp+

section \<open>The properties\<close>

text \<open>
  C1, as amended. The raw reviews are cut with \<open>reviews[:max_reviews]\<close> before the
  filter runs: a run that returns gives as many records as reviews of the cut list pass
  both rules of the filter. For a \<open>max_reviews\<close> that is not negative the cut list is
  the first \<open>max_reviews\<close> reviews in extraction order; for a negative one it is the
  list without its last \<open>-max_reviews\<close> reviews.
\<close>

theorem truncation_precedes_filtering:
  assumes "parse_business_page rt s b soup = Inr records"
    and "py_int rt (settings_get_default s ''max_reviews'' (SInt 200)) = Inr m"
  shows "\<exists>kept. filtered_reviews rt s soup = Inr kept
           \<and> kept = filter (kept_by rt (from_settings rt s)) (slice_to (parse_reviews rt soup) m)
           \<and> length records = length kept
           \<and> (0 \<le> m \<longrightarrow> slice_to (parse_reviews rt soup) m = take (nat m) (parse_reviews rt soup))
           \<and> (m < 0 \<longrightarrow> slice_to (parse_reviews rt soup) m =
                 take (length (parse_reviews rt soup) - nat (- m)) (parse_reviews rt soup))"
proof -
  from assms obtain kept where
    f: "filtered_reviews rt s soup = Inr kept"
    and kept: "apply_filters rt (slice_to (parse_reviews rt soup) m) (from_settings rt s) = Inr kept"
    and recs: "length records = length kept"
    by (auto simp: parse_business_page_eq filtered_reviews_def split: sum.splits)
  from apply_filters_eq [OF kept] f recs show ?thesis
    by (simp add: slice_to_take slice_to_negative)
qed

text \<open>
  Three reviews with 5, 3 and 5 stars, \<open>max_reviews = 2\<close> and \<open>min_rating = 4\<close>: one
  record, the 5 stars among the first two, although two reviews of the page have four
  stars or more. With \<open>max_reviews = -1\<close> the first two of the three are kept.
\<close>

theorem truncation_precedes_filtering_witness:
  "parse_business_page sample_runtime first_two_min_four sample_business three_reviews =
     Inr (the_records
            (parse_business_page sample_runtime first_two_min_four sample_business three_reviews))
   \<and> py_int sample_runtime (settings_get_default first_two_min_four ''max_reviews'' (SInt 200)) = Inr 2
   \<and> length (filter (kept_by sample_runtime (from_settings sample_runtime first_two_min_four))
               (take 2 (parse_reviews sample_runtime three_reviews))) = 1
   \<and> length (filter (kept_by sample_runtime (from_settings sample_runtime first_two_min_four))
               (parse_reviews sample_runtime three_reviews)) = 2
   \<and> length (the_records
        (parse_business_page sample_runtime max_minus_one sample_business three_reviews)) =
       length (filter (kept_by sample_runtime (from_settings sample_runtime max_minus_one))
                 (take 2 (parse_reviews sample_runtime three_reviews)))"
proof -
  have m: "py_int sample_runtime (settings_get_default first_two_min_four ''max_reviews'' (SInt 200)) = Inr 2"
    by (simp add: first_two_min_four_def settings_get_default_def)
  have n: "py_int sample_runtime (settings_get_default max_minus_one ''max_reviews'' (SInt 200)) = Inr (- 1)"
    by (simp add: max_minus_one_def settings_get_default_def)
  from truncation_precedes_filtering [OF three_reviews_run m]
  have a: "length (filter (kept_by sample_runtime (from_settings sample_runtime first_two_min_four))
               (take 2 (parse_reviews sample_runtime three_reviews))) = 1"
    by (auto simp: three_reviews_output_length)
  from truncation_precedes_filtering [OF minus_one_run n]
  have b: "length (the_records
        (parse_business_page sample_runtime max_minus_one sample_business three_reviews)) =
       length (filter (kept_by sample_runtime (from_settings sample_runtime max_minus_one))
                 (take 2 (parse_reviews sample_runtime three_reviews)))"
    by (auto simp: three_reviews_length)
  from m three_reviews_run three_reviews_kept_of_all a b show ?thesis by blast
qed

text \<open>
  \<open>max_reviews = -1\<close> and three reviews: the run returns two records, where no reading
  of "the first -1 reviews" leaves a review.
\<close>

theorem negative_max_reviews_counterexample:
  "py_int sample_runtime (settings_get_default max_minus_one ''max_reviews'' (SInt 200)) = Inr (- 1)
   \<and> length (parse_reviews sample_runtime three_reviews) = 3
   \<and> length (the_records
        (parse_business_page sample_runtime max_minus_one sample_business three_reviews)) = 2
   \<and> length (filter (kept_by sample_runtime (from_settings sample_runtime max_minus_one))
               (take (nat (- 1)) (parse_reviews sample_runtime three_reviews))) = 0"
proof -
  have "py_int sample_runtime (settings_get_default max_minus_one ''max_reviews'' (SInt 200)) = Inr (- 1)"
    by (simp add: max_minus_one_def settings_get_default_def)
  moreover have "length (filter (kept_by sample_runtime (from_settings sample_runtime max_minus_one))
               (take (nat (- 1)) (parse_reviews sample_runtime three_reviews))) = 0"
    by simp
  ultimately show ?thesis using three_reviews_length minus_one_length by blast
qed

text \<open>
  C2, as amended. A run that returns gives one record per filtered review, and every
  record holds the business's URL, name, review-count text, price range, address and
  contact number as the \<open>BusinessInfo\<close> has them; under \<open>average_rating\<close> it holds the
  average rating formatted with one decimal (a string), and \<open>None\<close> when there is none.
\<close>

theorem records_carry_business_info:
  assumes "parse_business_page rt s b soup = Inr records"
  shows "(\<exists>kept. filtered_reviews rt s soup = Inr kept \<and> length records = length kept)
     \<and> (\<forall>rec \<in> set records.
           dict_get rec ''business_url'' = PStr (business_url b)
         \<and> dict_get rec ''business_name'' = opt_str (business_name b)
         \<and> dict_get rec ''average_rating'' =
             (case average_rating b of None \<Rightarrow> PNone | Some x \<Rightarrow> PStr (format_1f rt x))
         \<and> dict_get rec ''total_reviews'' = opt_str (total_reviews_text b)
         \<and> dict_get rec ''price_range'' = opt_str (price_range b)
         \<and> dict_get rec ''business_address'' = opt_str (business_address b)
         \<and> dict_get rec ''contact_number'' = opt_str (contact_number b))"
proof -
  have len: "\<exists>kept. filtered_reviews rt s soup = Inr kept \<and> length records = length kept"
    using assms by (auto simp: parse_business_page_eq split: sum.splits)
  have field: "dict_get rec k = dict_get (business_record rt b []) k"
    if "rec \<in> set records" and "k \<notin> set review_keys" and "k \<noteq> ''review_counts_by_rating''" for rec k
  proof -
    from business_part_of_records [OF assms that(1,2)] obtain kept where
      "map_of rec k = map_of (business_record rt b (build_rating_histogram kept)) k" by blast
    also have "\<dots> = map_of (business_record rt b []) k"
      using that(3) by (simp add: business_record_def)
    finally show ?thesis by (simp add: dict_get_def)
  qed
  have "dict_get rec ''business_url'' = PStr (business_url b)
         \<and> dict_get rec ''business_name'' = opt_str (business_name b)
         \<and> dict_get rec ''average_rating'' =
             (case average_rating b of None \<Rightarrow> PNone | Some x \<Rightarrow> PStr (format_1f rt x))
         \<and> dict_get rec ''total_reviews'' = opt_str (total_reviews_text b)
         \<and> dict_get rec ''price_range'' = opt_str (price_range b)
         \<and> dict_get rec ''business_address'' = opt_str (business_address b)
         \<and> dict_get rec ''contact_number'' = opt_str (contact_number b)"
    if "rec \<in> set records" for rec
  proof -
    have "dict_get rec ''business_url'' = dict_get (business_record rt b []) ''business_url''"
      by (rule field [OF that]) (simp_all add: review_keys_def)
    moreover have "dict_get rec ''business_name'' = dict_get (business_record rt b []) ''business_name''"
      by (rule field [OF that]) (simp_all add: review_keys_def)
    moreover have "dict_get rec ''average_rating'' = dict_get (business_record rt b []) ''average_rating''"
      by (rule field [OF that]) (simp_all add: review_keys_def)
    moreover have "dict_get rec ''total_reviews'' = dict_get (business_record rt b []) ''total_reviews''"
      by (rule field [OF that]) (simp_all add: review_keys_def)
    moreover have "dict_get rec ''price_range'' = dict_get (business_record rt b []) ''price_range''"
      by (rule field [OF that]) (simp_all add: review_keys_def)
    moreover have "dict_get rec ''business_address'' = dict_get (business_record rt b []) ''business_address''"
      by (rule field [OF that]) (simp_all add: review_keys_def)
    moreover have "dict_get rec ''contact_number'' = dict_get (business_record rt b []) ''contact_number''"
      by (rule field [OF that]) (simp_all add: review_keys_def)
    ultimately show ?thesis
      by (simp add: business_record_def dict_get_def)
  qed
  with len show ?thesis by blast
qed

theorem records_carry_business_info_witness:
  "parse_business_page sample_runtime first_two_min_four sample_business three_reviews =
     Inr (the_records
            (parse_business_page sample_runtime first_two_min_four sample_business three_reviews))
   \<and> length (the_records
        (parse_business_page sample_runtime first_two_min_four sample_business three_reviews)) = 1
   \<and> record_fields ''business_name''
       (parse_business_page sample_runtime first_two_min_four sample_business three_reviews) =
       [opt_str (business_name sample_business)]
   \<and> record_fields ''average_rating''
       (parse_business_page sample_runtime first_two_min_four sample_business three_reviews) =
       [PStr (format_1f sample_runtime (45 / 10))]"
proof -
  let ?records = "the_records
        (parse_business_page sample_runtime first_two_min_four sample_business three_reviews)"
  obtain rec where one: "?records = [rec]"
    using three_reviews_output_length by (cases ?records) auto
  from records_carry_business_info [OF three_reviews_run] one
  have "dict_get rec ''business_name'' = opt_str (business_name sample_business)"
    and "dict_get rec ''average_rating'' = PStr (format_1f sample_runtime (45 / 10))"
    by (simp_all add: sample_business_def)
  then have "record_fields ''business_name'' (Inr ?records) =
               [opt_str (business_name sample_business)]"
    and "record_fields ''average_rating'' (Inr ?records) =
               [PStr (format_1f sample_runtime (45 / 10))]"
    by (simp_all add: record_fields_def one)
  with three_reviews_run three_reviews_output_length show ?thesis
    by (simp only: three_reviews_run [symmetric] simp_thms)
qed

text \<open>
  The business's average rating is the float 4.5; the record holds the string \<open>4.5\<close>.
\<close>

theorem average_rating_is_formatted_counterexample:
  "record_fields ''average_rating''
     (parse_business_page sample_runtime first_two_min_four sample_business three_reviews) =
     [PStr ''4.5'']
   \<and> [opt_float (average_rating sample_business)] = [PFloat (45 / 10)]"
proof
  show "record_fields ''average_rating''
     (parse_business_page sample_runtime first_two_min_four sample_business three_reviews) =
     [PStr ''4.5'']"
    by (rule three_reviews_business_fields)
  show "[opt_float (average_rating sample_business)] = [PFloat (45 / 10)]"
    by (simp add: sample_business_def opt_float_def)
qed

text \<open>
  C3. The histogram has the five keys \<open>1stars\<close> to \<open>5stars\<close>, whatever the reviews;
  under \<open>kstars\<close> it holds the number of reviews whose rating is the integer \<open>k\<close>, so
  0 where that rating never occurs; its counts sum to the number of reviews given to
  the builder whose rating is an integer from 1 to 5; a review with any other rating
  changes no count; and the histogram every output record carries is the one of the
  reviews left after truncation and filtering.
\<close>

theorem histogram_counts_star_rated_reviews:
  "map fst (build_rating_histogram reviews) = [''1stars'', ''2stars'', ''3stars'', ''4stars'', ''5stars'']
   \<and> dict_get (build_rating_histogram reviews) ''1stars'' =
       PInt (int (length (filter (\<lambda>r. rating_of r = Some 1) reviews)))
   \<and> dict_get (build_rating_histogram reviews) ''2stars'' =
       PInt (int (length (filter (\<lambda>r. rating_of r = Some 2) reviews)))
   \<and> dict_get (build_rating_histogram reviews) ''3stars'' =
       PInt (int (length (filter (\<lambda>r. rating_of r = Some 3) reviews)))
   \<and> dict_get (build_rating_histogram reviews) ''4stars'' =
       PInt (int (length (filter (\<lambda>r. rating_of r = Some 4) reviews)))
   \<and> dict_get (build_rating_histogram reviews) ''5stars'' =
       PInt (int (length (filter (\<lambda>r. rating_of r = Some 5) reviews)))
   \<and> build_rating_histogram [] =
       [(''1stars'', PInt 0), (''2stars'', PInt 0), (''3stars'', PInt 0),
        (''4stars'', PInt 0), (''5stars'', PInt 0)]
   \<and> bucket_sum (build_rating_histogram reviews) = int (length (filter star_rated reviews))
   \<and> (\<not> star_rated r \<longrightarrow> build_rating_histogram (r # reviews) = build_rating_histogram reviews)
   \<and> (parse_business_page rt s b soup = Inr records \<longrightarrow>
        (\<exists>kept. filtered_reviews rt s soup = Inr kept \<and>
           (\<forall>rec \<in> set records. histogram_of rec = build_rating_histogram kept)))"
proof -
  have keys: "map fst (build_rating_histogram reviews) = [''1stars'', ''2stars'', ''3stars'', ''4stars'', ''5stars'']"
    by (simp add: build_rating_histogram_eq)
  have empty: "build_rating_histogram [] =
       [(''1stars'', PInt 0), (''2stars'', PInt 0), (''3stars'', PInt 0),
        (''4stars'', PInt 0), (''5stars'', PInt 0)]"
    by (simp add: build_rating_histogram_eq)
  have skip: "\<not> star_rated r \<longrightarrow> build_rating_histogram (r # reviews) = build_rating_histogram reviews"
    by (simp add: build_rating_histogram_def count_ratings_skip del: count_ratings.simps)
  have pipe: "parse_business_page rt s b soup = Inr records \<longrightarrow>
        (\<exists>kept. filtered_reviews rt s soup = Inr kept \<and>
           (\<forall>rec \<in> set records. histogram_of rec = build_rating_histogram kept))"
  proof
    assume run: "parse_business_page rt s b soup = Inr records"
    then obtain kept where kept: "filtered_reviews rt s soup = Inr kept"
      by (auto simp: parse_business_page_eq split: sum.splits)
    have "histogram_of rec = build_rating_histogram kept" if "rec \<in> set records" for rec
    proof -
      have "''review_counts_by_rating'' \<notin> set review_keys" by (simp add: review_keys_def)
      from business_part_of_records [OF run that this] kept show ?thesis
        by (auto simp: histogram_of_def dict_get_def business_record_def)
    qed
    with kept show "\<exists>kept. filtered_reviews rt s soup = Inr kept \<and>
           (\<forall>rec \<in> set records. histogram_of rec = build_rating_histogram kept)"
      by blast
  qed
  show ?thesis
    using keys empty skip pipe bucket_sum_count [of reviews] histogram_buckets [of reviews]
    by blast
qed

theorem histogram_counts_star_rated_reviews_witness:
  "build_rating_histogram [unrated_review, five_star_review] =
       [(''1stars'', PInt 0), (''2stars'', PInt 0), (''3stars'', PInt 0),
        (''4stars'', PInt 0), (''5stars'', PInt 1)]
   \<and> dict_get (build_rating_histogram [unrated_review, five_star_review]) ''5stars'' = PInt 1
   \<and> dict_get (build_rating_histogram [unrated_review, five_star_review]) ''1stars'' = PInt 0
   \<and> bucket_sum (build_rating_histogram [five_star_review]) = 1
   \<and> \<not> star_rated unrated_review
   \<and> parse_business_page sample_runtime first_two_min_four sample_business three_reviews =
       Inr (the_records
              (parse_business_page sample_runtime first_two_min_four sample_business three_reviews))
   \<and> length (the_records
        (parse_business_page sample_runtime first_two_min_four sample_business three_reviews)) = 1
   \<and> (\<exists>kept. filtered_reviews sample_runtime first_two_min_four three_reviews = Inr kept \<and>
         (\<forall>rec \<in> set (the_records
             (parse_business_page sample_runtime first_two_min_four sample_business three_reviews)).
            histogram_of rec = build_rating_histogram kept))"
proof -
  have unrated: "\<not> star_rated unrated_review"
    by (simp add: star_rated_def rating_of_def unrated_review_def dict_get_def)
  have rated: "length (filter star_rated [five_star_review]) = 1"
    by (simp add: star_rated_def rating_of_def five_star_review_def dict_get_def)
  have ev: "build_rating_histogram [unrated_review, five_star_review] =
       [(''1stars'', PInt 0), (''2stars'', PInt 0), (''3stars'', PInt 0),
        (''4stars'', PInt 0), (''5stars'', PInt 1)]"
    by code_simp
  have b5: "dict_get (build_rating_histogram [unrated_review, five_star_review]) ''5stars'' = PInt 1"
   and b1: "dict_get (build_rating_histogram [unrated_review, five_star_review]) ''1stars'' = PInt 0"
    using histogram_counts_star_rated_reviews [of "[unrated_review, five_star_review]"]
    by (simp_all add: rating_of_def unrated_review_def five_star_review_def dict_get_def)
  from histogram_counts_star_rated_reviews
         [of "[five_star_review]" unrated_review sample_runtime first_two_min_four
             sample_business three_reviews
             "the_records (parse_business_page sample_runtime first_two_min_four
                             sample_business three_reviews)"]
       unrated rated three_reviews_run three_reviews_output_length
  have rest: "bucket_sum (build_rating_histogram [five_star_review]) = 1
   \<and> (\<exists>kept. filtered_reviews sample_runtime first_two_min_four three_reviews = Inr kept \<and>
         (\<forall>rec \<in> set (the_records
             (parse_business_page sample_runtime first_two_min_four sample_business three_reviews)).
            histogram_of rec = build_rating_histogram kept))"
    by simp
  from ev b5 b1 rest unrated three_reviews_run three_reviews_output_length
  show ?thesis by blast
qed

text \<open>
  C4, as amended. The counts of the histogram sum to at most the number of reviews
  given to the builder, and to exactly that number if and only if every one of them has
  an integer rating from 1 to 5.
\<close>

theorem histogram_sum_at_most_reviews:
  "bucket_sum (build_rating_histogram reviews) \<le> int (length reviews)
   \<and> ((bucket_sum (build_rating_histogram reviews) = int (length reviews)) = list_all star_rated reviews)"
proof -
  have "length (filter star_rated reviews) \<le> length reviews" by simp
  moreover have "(length (filter star_rated reviews) = length reviews) = list_all star_rated reviews"
    by (rule length_filter_all)
  ultimately show ?thesis by (simp add: bucket_sum_count)
qed

theorem histogram_sum_at_most_reviews_witness:
  "bucket_sum (build_rating_histogram [unrated_review, five_star_review]) \<le> 2
   \<and> bucket_sum (build_rating_histogram [unrated_review, five_star_review]) \<noteq> 2
   \<and> \<not> list_all star_rated [unrated_review, five_star_review]"
proof -
  have "\<not> list_all star_rated [unrated_review, five_star_review]"
    by (simp add: star_rated_def rating_of_def unrated_review_def dict_get_def)
  with histogram_sum_at_most_reviews [of "[unrated_review, five_star_review]"]
  show ?thesis by simp
qed

text \<open>One review without a rating: the counts sum to 0, the list has one review.\<close>

theorem histogram_sum_counterexample:
  "bucket_sum (build_rating_histogram [unrated_review]) = 0
   \<and> int (length [unrated_review]) = 1"
  by (simp add: build_rating_histogram_eq bucket_sum_def bucket_def dict_get_def
                unrated_review_def)

text \<open>
  C5. The rating rule keeps a review whose rating is an integer if and only if the
  rating is not below \<open>min_rating\<close> and not above \<open>max_rating\<close>, a bound that is not set
  constraining nothing; it keeps a review whose rating is not an integer if and only if
  neither bound is set.
\<close>

theorem rating_rule:
  "passes_rating_filter review filters =
     (case rating_of review of
        None \<Rightarrow> min_rating filters = None \<and> max_rating filters = None
      | Some r \<Rightarrow>
          (case min_rating filters of None \<Rightarrow> True | Some lo \<Rightarrow> lo \<le> r) \<and>
          (case max_rating filters of None \<Rightarrow> True | Some hi \<Rightarrow> r \<le> hi))"
  by (auto simp: passes_rating_filter_def rating_of_def Let_def split: option.splits)

text \<open>A review without a rating under the settings \<open>{min_rating: 3}\<close> is dropped.\<close>

theorem rating_rule_witness:
  "rating_of unrated_review = None
   \<and> min_rating (from_settings sample_runtime [(''min_rating'', SInt 3)]) = Some 3
   \<and> \<not> passes_rating_filter unrated_review
         (from_settings sample_runtime [(''min_rating'', SInt 3)])
   \<and> passes_rating_filter five_star_review
         (from_settings sample_runtime [(''min_rating'', SInt 3)])"
proof -
  have r: "rating_of unrated_review = None" "rating_of five_star_review = Some 5"
    by (simp_all add: rating_of_def unrated_review_def five_star_review_def dict_get_def)
  have f: "from_settings sample_runtime [(''min_rating'', SInt 3)] =
             \<lparr>min_rating = Some 3, max_rating = None, from_date = None\<rparr>"
    by (simp add: from_settings_def settings_get_def rating_bound_def Let_def)
  from rating_rule [of unrated_review "from_settings sample_runtime [(''min_rating'', SInt 3)]"]
       rating_rule [of five_star_review "from_settings sample_runtime [(''min_rating'', SInt 3)]"]
       r f
  show ?thesis by simp
qed

text \<open>
  C6. With a \<open>from_date\<close> that carries a UTC offset and reviews whose dates carry none,
  the comparison of the date rule raises \<open>TypeError\<close>; nothing catches it, and the run
  over the page ends with that exception instead of a list of records.
\<close>

theorem date_rule_raises_on_mixed_dates:
  "passes_date_filter sample_runtime [(''review_date'', PStr ''2024-01-05T00:00:00'')]
     (from_settings sample_runtime aware_from_date) = Inl TypeError
   \<and> parse_business_page sample_runtime aware_from_date sample_business three_reviews =
       Inl TypeError"
  by code_simp

text \<open>
  C7. A container whose extraction raises is left out of the result and nothing else
  changes: the reviews of the containers before it and after it are those the same
  containers give without it, in order. A container that parses contributes its review
  at its place. A date text that is present and that the date parser refuses makes the
  extraction of its container raise.
\<close>

theorem failing_container_is_skipped:
  "(parse_single_review rt c = Inl exc \<longrightarrow>
      parse_containers rt (before @ c # after) =
        parse_containers rt before @ parse_containers rt after)
   \<and> (parse_single_review rt c = Inr review \<longrightarrow>
      parse_containers rt (before @ c # after) =
        parse_containers rt before @ review # parse_containers rt after)
   \<and> (extract_review_date_raw c = Some raw \<and> date_parse rt raw = Inl exc \<longrightarrow>
      parse_single_review rt c = Inl exc)"
  by (simp add: parse_containers_append unparseable_date_raises)

theorem failing_container_is_skipped_witness:
  "parse_single_review sample_runtime (sample_container ''4 star rating'' ''garbage'') =
     Inl ValueError
   \<and> review_fields ''latest_reviewer_rating'' (parse_reviews sample_runtime broken_second) =
       [PInt 5, PInt 2]"
proof -
  from failing_container_is_skipped
         [of sample_runtime "sample_container ''4 star rating'' ''garbage''" ValueError
             "[sample_container ''5 star rating'' ''Jan 5, 2024'']"
             "[sample_container ''2 star rating'' ''Jan 5, 2024'']"]
       broken_second_raises
  have "parse_reviews sample_runtime broken_second =
          parse_containers sample_runtime [sample_container ''5 star rating'' ''Jan 5, 2024''] @
          parse_containers sample_runtime [sample_container ''2 star rating'' ''Jan 5, 2024'']"
    by (simp only: parse_reviews_def broken_second_containers)
  with broken_second_raises broken_second_ratings show ?thesis by simp
qed

text \<open>
  C8, as amended. Every extracted review comes from a located container, and its
  reviewer rating is what the first star-rating label below that container writes: the
  number of the first run of digits of the label, which is not negative and not
  confined to 1..5. It is absent when the container has no such label, the label has no
  digit, or the run is longer than \<open>int\<close> converts. The first run of digits: no digit
  stands before it, and no digit follows it directly.
\<close>

theorem reviewer_rating_absent_or_natural:
  "(\<forall>r \<in> set (parse_reviews rt soup).
      (\<exists>c \<in> set (locate_review_containers soup).
          parse_single_review rt c = Inr r \<and>
          dict_get r ''latest_reviewer_rating'' = label_rating rt c)
      \<and> (dict_get r ''latest_reviewer_rating'' = PNone \<or>
          (\<exists>n. 0 \<le> n \<and> dict_get r ''latest_reviewer_rating'' = PInt n)))
   \<and> (first_digit_run label = Some ds \<longrightarrow>
        (\<exists>pre post. label = pre @ ds @ post \<and> (\<forall>c \<in> set pre. \<not> isdigit c) \<and> ds \<noteq> []
           \<and> (\<forall>c \<in> set ds. isdigit c) \<and> (post = [] \<or> \<not> isdigit (hd post))))
   \<and> ((\<forall>c \<in> set label. \<not> isdigit c) \<longrightarrow> first_digit_run label = None)"
proof -
  have one: "(\<exists>c \<in> set (locate_review_containers soup).
          parse_single_review rt c = Inr r \<and>
          dict_get r ''latest_reviewer_rating'' = label_rating rt c)
      \<and> (dict_get r ''latest_reviewer_rating'' = PNone \<or>
          (\<exists>n. 0 \<le> n \<and> dict_get r ''latest_reviewer_rating'' = PInt n))"
    if "r \<in> set (parse_reviews rt soup)" for r
  proof -
    from that obtain c where c: "c \<in> set (locate_review_containers soup)"
      and p: "parse_single_review rt c = Inr r"
      by (auto simp: parse_reviews_def dest: parse_containers_source)
    have eq: "dict_get r ''latest_reviewer_rating'' = label_rating rt c"
      using parse_single_review_rating [OF p] by (simp add: extract_reviewer_rating_eq)
    have "dict_get r ''latest_reviewer_rating'' = PNone \<or>
          (\<exists>n. 0 \<le> n \<and> dict_get r ''latest_reviewer_rating'' = PInt n)"
    proof (cases "extract_reviewer_rating rt c")
      case None
      then show ?thesis using parse_single_review_rating [OF p] by (simp add: opt_int_def)
    next
      case (Some n)
      then show ?thesis
        using parse_single_review_rating [OF p] extract_reviewer_rating_nonneg [OF Some]
        by (simp add: opt_int_def)
    qed
    with c p eq show ?thesis by blast
  qed
  have none: "(\<forall>c \<in> set label. \<not> isdigit c) \<longrightarrow> first_digit_run label = None"
    by (simp add: first_digit_run_def Let_def dropWhile_eq_Nil_conv)
  from one first_digit_run_shape none show ?thesis by blast
qed

text \<open>A label that reads \<open>4 of 5 star rating\<close> gives the rating 4.\<close>

theorem reviewer_rating_absent_or_natural_witness:
  "review_fields ''latest_reviewer_rating'' (parse_reviews sample_runtime four_of_five) = [PInt 4]
   \<and> locate_review_containers four_of_five =
       [sample_container ''4 of 5 star rating'' ''Jan 5, 2024'']
   \<and> label_rating sample_runtime (sample_container ''4 of 5 star rating'' ''Jan 5, 2024'') = PInt 4
   \<and> first_digit_run ''4 of 5 star rating'' = Some ''4''"
  using reviewer_rating_absent_or_natural [of sample_runtime four_of_five "''4 of 5 star rating''" "''4''"]
        four_of_five_ratings four_of_five_label
  by blast

text \<open>A label that reads \<open>10 star rating\<close> gives the rating 10.\<close>

theorem rating_out_of_range_counterexample:
  "review_fields ''latest_reviewer_rating'' (parse_reviews sample_runtime ten_stars) = [PInt 10]"
  by code_simp

text \<open>
  C9, as amended. The media URLs of a container have no duplicates; they are the image
  sources that contain \<open>yelp\<close>, in document order, followed by the sources of the
  videos, video by video in document order, each URL at its first occurrence only.
\<close>

theorem media_urls_images_then_videos:
  "distinct (extract_review_media_urls container)
   \<and> extract_review_media_urls container = keep_first (image_urls container @ video_urls container)
   \<and> set (extract_review_media_urls container) = set (image_urls container) \<union> set (video_urls container)"
proof -
  have imgs: "add_image_urls (find_all ''img'' container) [] = keep_first (image_urls container)"
    by (simp add: add_image_urls_eq image_urls_def)
  have "extract_review_media_urls container =
        keep_first (keep_first (image_urls container) @ video_urls container)"
    unfolding extract_review_media_urls_def imgs
    by (simp add: add_video_urls_eq distinct_keep_first video_urls_def)
  then have eq: "extract_review_media_urls container =
        keep_first (image_urls container @ video_urls container)"
    by (simp add: keep_first_append_keep_first)
  show ?thesis unfolding eq by (simp add: distinct_keep_first set_keep_first)
qed

theorem media_urls_images_then_videos_witness:
  "extract_review_media_urls video_then_image = [''https://s3.yelp.com/photo.jpg'', ''clip.mp4'']"
  using media_urls_images_then_videos [of video_then_image] video_then_image_sources
  by simp

text \<open>
  A video before an image: in document order the video's source comes first, in the
  extracted list the image's.
\<close>

theorem media_urls_document_order_counterexample:
  "extract_review_media_urls video_then_image = [''https://s3.yelp.com/photo.jpg'', ''clip.mp4'']
   \<and> document_order_media video_then_image = [''clip.mp4'', ''https://s3.yelp.com/photo.jpg'']"
  by code_simp

text \<open>
  C10. All records of one run hold the same value under \<open>review_counts_by_rating\<close>: the
  histogram of the reviews left after truncation and filtering.
\<close>

theorem every_record_has_the_same_histogram:
  assumes "parse_business_page rt s b soup = Inr records"
  shows "\<exists>kept. filtered_reviews rt s soup = Inr kept \<and>
           record_fields ''review_counts_by_rating'' (Inr records) =
             replicate (length kept) (PDict (build_rating_histogram kept))"
proof -
  from assms obtain kept where kept: "filtered_reviews rt s soup = Inr kept"
    and len: "length records = length kept"
    by (auto simp: parse_business_page_eq split: sum.splits)
  have "dict_get rec ''review_counts_by_rating'' = PDict (build_rating_histogram kept)"
    if "rec \<in> set records" for rec
  proof -
    have "''review_counts_by_rating'' \<notin> set review_keys" by (simp add: review_keys_def)
    from business_part_of_records [OF assms that this] kept show ?thesis
      by (auto simp: dict_get_def business_record_def)
  qed
  then have "map (\<lambda>r. dict_get r ''review_counts_by_rating'') records =
             replicate (length records) (PDict (build_rating_histogram kept))"
    by (simp add: map_replicate_const [symmetric] cong: map_cong)
  with kept len show ?thesis by (simp add: record_fields_def)
qed

theorem every_record_has_the_same_histogram_witness:
  "parse_business_page sample_runtime [] sample_business three_reviews =
     Inr (the_records (parse_business_page sample_runtime [] sample_business three_reviews))
   \<and> record_fields ''review_counts_by_rating''
       (parse_business_page sample_runtime [] sample_business three_reviews) =
     replicate 3
       (PDict [(''1stars'', PInt 0), (''2stars'', PInt 0), (''3stars'', PInt 1),
               (''4stars'', PInt 0), (''5stars'', PInt 2)])"
  using every_record_has_the_same_histogram [OF three_reviews_unfiltered_run]
        three_reviews_unfiltered_run three_reviews_histograms
  by simp

end
